theory Spec2Isabelle
  imports Complex_Main "HOL-Library.Log_Nat" "HOL-Library.Word"
begin

section \<open>JavaScript values\<close>

text \<open>
  The functions of \<open>src/utils/pdfWatermark.js\<close> are embedded as HOL functions.

  A JavaScript string is a sequence of UTF-16 code units. A code unit is modelled as a
  natural number (the program only compares code units, it never computes with them), so
  that the test for the range U+4E00 to U+9FA5 of the source and the Unicode white space of
  the number parsers can be written as they are. \<open>ascii\<close> turns a literal of the
  theory into the string of its code units.
\<close>

type_synonym code_unit = nat
type_synonym jsstring = "code_unit list"

definition ascii :: "string \<Rightarrow> jsstring" where
  "ascii s = map of_char s"

text \<open>
  A JavaScript number is \<open>NaN\<close>, an infinity or a finite number. Finite numbers are
  modelled as exact reals: the rounding of IEEE doubles and the sign of zero are not
  modelled.
\<close>

datatype jsnum = NaN | PosInf | NegInf | Fin real

fun negate :: "jsnum \<Rightarrow> jsnum" where
  "negate NaN = NaN"
| "negate PosInf = NegInf"
| "negate NegInf = PosInf"
| "negate (Fin v) = Fin (- v)"

fun dividedBy :: "jsnum \<Rightarrow> real \<Rightarrow> jsnum" where
  "dividedBy NaN d = NaN"
| "dividedBy PosInf d = PosInf"
| "dividedBy NegInf d = NegInf"
| "dividedBy (Fin v) d = Fin (v / d)"

text \<open>The result of \<open>parseInt\<close> as a number: \<open>None\<close> stands for \<open>NaN\<close>.\<close>

fun ofParsedInt :: "int option \<Rightarrow> jsnum" where
  "ofParsedInt None = NaN"
| "ofParsedInt (Some k) = Fin (of_int k)"

text \<open>The order of the numbers; every comparison with \<open>NaN\<close> is false.\<close>

fun lessEq :: "jsnum \<Rightarrow> jsnum \<Rightarrow> bool" where
  "lessEq NaN b = False"
| "lessEq a NaN = False"
| "lessEq NegInf b = True"
| "lessEq a PosInf = True"
| "lessEq PosInf b = False"
| "lessEq a NegInf = False"
| "lessEq (Fin u) (Fin v) = (u \<le> v)"

text \<open>\<open>Math.min\<close> and \<open>Math.max\<close> return \<open>NaN\<close> as soon as one argument is.\<close>

definition Math_min :: "jsnum \<Rightarrow> jsnum \<Rightarrow> jsnum" where
  "Math_min a b = (if a = NaN \<or> b = NaN then NaN else if lessEq a b then a else b)"

definition Math_max :: "jsnum \<Rightarrow> jsnum \<Rightarrow> jsnum" where
  "Math_max a b = (if a = NaN \<or> b = NaN then NaN else if lessEq a b then b else a)"

definition isNaN :: "jsnum \<Rightarrow> bool" where
  "isNaN v \<longleftrightarrow> v = NaN"

subsection \<open>The built-in parsers\<close>

text \<open>
  \<open>parseInt\<close>, \<open>parseFloat\<close> and \<open>Number\<close> are built into the language; they are
  modelled after ECMA-262 (\<open>parseInt(string, radix)\<close>, \<open>parseFloat(string)\<close>,
  \<open>StringToNumber\<close>). White space is the \<open>StrWhiteSpaceChar\<close> of the standard.
\<close>

definition isStrWhiteSpaceChar :: "code_unit \<Rightarrow> bool" where
  "isStrWhiteSpaceChar c \<longleftrightarrow>
     c \<in> {0x9, 0xA, 0xB, 0xC, 0xD, 0x20, 0xA0, 0x1680, 0x2028, 0x2029, 0x202F, 0x205F,
          0x3000, 0xFEFF}
     \<or> (0x2000 \<le> c \<and> c \<le> 0x200A)"

definition trimString :: "jsstring \<Rightarrow> jsstring" where
  "trimString s = rev (dropWhile isStrWhiteSpaceChar (rev (dropWhile isStrWhiteSpaceChar s)))"

text \<open>The value of a code unit as a digit: \<open>0-9\<close>, then \<open>a-z\<close> or \<open>A-Z\<close> for 10 to 35.\<close>

definition digitValue :: "code_unit \<Rightarrow> nat option" where
  "digitValue c =
     (if 0x30 \<le> c \<and> c \<le> 0x39 then Some (c - 0x30)
      else if 0x61 \<le> c \<and> c \<le> 0x7A then Some (c - 0x61 + 10)
      else if 0x41 \<le> c \<and> c \<le> 0x5A then Some (c - 0x41 + 10)
      else None)"

definition isRadixDigit :: "nat \<Rightarrow> code_unit \<Rightarrow> bool" where
  "isRadixDigit R c = (case digitValue c of None \<Rightarrow> False | Some d \<Rightarrow> d < R)"

definition isDecimalDigit :: "code_unit \<Rightarrow> bool" where
  "isDecimalDigit c \<longleftrightarrow> 0x30 \<le> c \<and> c \<le> 0x39"

definition digitsValue :: "nat \<Rightarrow> jsstring \<Rightarrow> nat" where
  "digitsValue R Z =
     foldl (\<lambda>acc c. acc * R + (case digitValue c of None \<Rightarrow> 0 | Some d \<Rightarrow> d)) 0 Z"

text \<open>
  \<open>parseInt(string, radix)\<close>; radix 0 stands for an absent radix. \<open>None\<close> is the
  result \<open>NaN\<close>: every other result is an integer.
\<close>

definition parseInt :: "jsstring \<Rightarrow> nat \<Rightarrow> int option" where
  "parseInt string radix =
     (let S = dropWhile isStrWhiteSpaceChar string;
          sign = (if S \<noteq> [] \<and> hd S = 0x2D then - 1 else 1 :: int);
          S = (if S \<noteq> [] \<and> (hd S = 0x2B \<or> hd S = 0x2D) then tl S else S)
      in if radix \<noteq> 0 \<and> (radix < 2 \<or> radix > 36) then None
         else
           let stripPrefix = (radix = 0 \<or> radix = 16);
               R = (if radix = 0 then 10 else radix);
               hasPrefix = (stripPrefix \<and> (take 2 S = ascii ''0x'' \<or> take 2 S = ascii ''0X''));
               S = (if hasPrefix then drop 2 S else S);
               R = (if hasPrefix then 16 else R);
               Z = takeWhile (isRadixDigit R) S
           in if Z = [] then None else Some (sign * int (digitsValue R Z)))"

definition scale10 :: "real \<Rightarrow> int \<Rightarrow> real" where
  "scale10 m e = (if 0 \<le> e then m * 10 ^ nat e else m / 10 ^ nat (- e))"

text \<open>
  The longest \<open>ExponentPart\<close> at the head of a string: its value and the rest of the
  string. An \<open>e\<close> that no digit follows is not part of the number.
\<close>

definition exponentPart :: "jsstring \<Rightarrow> int \<times> jsstring" where
  "exponentPart s =
     (case s of
        [] \<Rightarrow> (0, s)
      | c # r \<Rightarrow>
          if c = 0x65 \<or> c = 0x45 then
            (let neg = (r \<noteq> [] \<and> hd r = 0x2D);
                 r' = (if r \<noteq> [] \<and> (hd r = 0x2B \<or> hd r = 0x2D) then tl r else r);
                 ds = takeWhile isDecimalDigit r'
             in if ds = [] then (0, s)
                else ((if neg then - int (digitsValue 10 ds) else int (digitsValue 10 ds)),
                      dropWhile isDecimalDigit r'))
          else (0, s))"

text \<open>
  The longest prefix of a string that is a \<open>StrUnsignedDecimalLiteral\<close>
  (\<open>Infinity\<close>, or digits with an optional fraction and exponent), with its value and
  the rest of the string; \<open>None\<close> when no prefix is one.
\<close>

definition strUnsignedDecimalLiteral :: "jsstring \<Rightarrow> (jsnum \<times> jsstring) option" where
  "strUnsignedDecimalLiteral s =
     (if take 8 s = ascii ''Infinity'' then Some (PosInf, drop 8 s)
      else
        let ip = takeWhile isDecimalDigit s;
            r1 = dropWhile isDecimalDigit s;
            hasDot = (r1 \<noteq> [] \<and> hd r1 = 0x2E);
            fp = (if hasDot then takeWhile isDecimalDigit (tl r1) else [])
        in if ip = [] \<and> fp = [] then None
           else
             let r2 = (if hasDot then dropWhile isDecimalDigit (tl r1) else r1);
                 mantissa = real (digitsValue 10 ip) + real (digitsValue 10 fp) / 10 ^ length fp;
                 ex = exponentPart r2
             in Some (Fin (scale10 mantissa (fst ex)), snd ex))"

definition strDecimalLiteral :: "jsstring \<Rightarrow> (jsnum \<times> jsstring) option" where
  "strDecimalLiteral s =
     (case s of
        [] \<Rightarrow> None
      | c # r \<Rightarrow>
          if c = 0x2B then strUnsignedDecimalLiteral r
          else if c = 0x2D
          then map_option (\<lambda>p. (negate (fst p), snd p)) (strUnsignedDecimalLiteral r)
          else strUnsignedDecimalLiteral s)"

text \<open>
  \<open>parseFloat(string)\<close>: leading white space is dropped and the longest prefix that is a
  decimal literal is read; whatever follows is ignored.
\<close>

definition parseFloat :: "jsstring \<Rightarrow> jsnum" where
  "parseFloat string =
     (case strDecimalLiteral (dropWhile isStrWhiteSpaceChar string) of
        None \<Rightarrow> NaN
      | Some p \<Rightarrow> fst p)"

text \<open>The literals \<open>0x..\<close>, \<open>0o..\<close> and \<open>0b..\<close> that \<open>Number\<close> accepts, unsigned.\<close>

definition nonDecimalIntegerLiteral :: "jsstring \<Rightarrow> nat option" where
  "nonDecimalIntegerLiteral s =
     (case s of
        c0 # c1 # ds \<Rightarrow>
          if c0 = 0x30 \<and> ds \<noteq> [] then
            (if (c1 = 0x78 \<or> c1 = 0x58) \<and> list_all (isRadixDigit 16) ds
             then Some (digitsValue 16 ds)
             else if (c1 = 0x6F \<or> c1 = 0x4F) \<and> list_all (isRadixDigit 8) ds
             then Some (digitsValue 8 ds)
             else if (c1 = 0x62 \<or> c1 = 0x42) \<and> list_all (isRadixDigit 2) ds
             then Some (digitsValue 2 ds)
             else None)
          else None
      | _ \<Rightarrow> None)"

text \<open>
  \<open>Number(string)\<close>: the whole string, white space trimmed at both ends, has to be a
  numeric literal; the empty string is 0.
\<close>

definition Number :: "jsstring \<Rightarrow> jsnum" where
  "Number s =
     (let t = trimString s
      in if t = [] then Fin 0
         else case nonDecimalIntegerLiteral t of
                Some n \<Rightarrow> Fin (real n)
              | None \<Rightarrow>
                  (case strDecimalLiteral t of
                     None \<Rightarrow> NaN
                   | Some p \<Rightarrow> if snd p = [] then fst p else NaN))"

text \<open>\<open>string.split(sep)\<close> for a separator of one code unit.\<close>

fun split :: "jsstring \<Rightarrow> code_unit \<Rightarrow> jsstring list" where
  "split [] sep = [[]]"
| "split (c # cs) sep =
     (if c = sep then [] # split cs sep
      else (case split cs sep of
              [] \<Rightarrow> [[c]]
            | t # ts \<Rightarrow> (c # t) # ts))"

section \<open>Colours: \<open>parseColor\<close>\<close>

text \<open>
  The colour object that pdf-lib's \<open>rgb(r, g, b)\<close> builds. pdf-lib is outside the
  repository: \<open>rgb\<close> is modelled as the constructor of the triple, and what it does
  with a channel that is no number between 0 and 1 is not modelled.
\<close>

record RGB =
  red :: jsnum
  green :: jsnum
  blue :: jsnum

definition rgb :: "jsnum \<Rightarrow> jsnum \<Rightarrow> jsnum \<Rightarrow> RGB" where
  "rgb r g b = \<lparr>red = r, green = g, blue = b\<rparr>"

text \<open>
  \<open>parseColor(colorStr)\<close>. The three channels start at 0 and are assigned on the paths
  that accept the input; \<open>rgb0\<close> is their value when the \<open>try\<close> block is left. For a
  string argument no statement of the block throws, so the \<open>catch\<close> branch has no
  counterpart here. The channels are clamped once more before \<open>rgb\<close> is called.
\<close>

definition parseColor :: "jsstring \<Rightarrow> RGB" where
  "parseColor colorStr =
     (let black = (Fin 0, Fin 0, Fin 0);
          rgb0 =
            (if take 1 colorStr = ascii ''#'' then
               (let hex = drop 1 colorStr
                in if length hex = 3 then
                     (dividedBy (ofParsedInt (parseInt ([hex ! 0] @ [hex ! 0]) 16)) 255,
                      dividedBy (ofParsedInt (parseInt ([hex ! 1] @ [hex ! 1]) 16)) 255,
                      dividedBy (ofParsedInt (parseInt ([hex ! 2] @ [hex ! 2]) 16)) 255)
                   else if length hex = 6 then
                     (dividedBy (ofParsedInt (parseInt (take 2 hex) 16)) 255,
                      dividedBy (ofParsedInt (parseInt (take 2 (drop 2 hex)) 16)) 255,
                      dividedBy (ofParsedInt (parseInt (take 2 (drop 4 hex)) 16)) 255)
                   else black)
             else
               (let colorValues = map Number (split colorStr 0x2C)
                in if length colorValues \<ge> 3 \<and> \<not> list_ex isNaN colorValues then
                     (Math_max (Fin 0) (Math_min (Fin 1) (colorValues ! 0)),
                      Math_max (Fin 0) (Math_min (Fin 1) (colorValues ! 1)),
                      Math_max (Fin 0) (Math_min (Fin 1) (colorValues ! 2)))
                   else black))
      in case rgb0 of (r, g, b) \<Rightarrow>
           rgb (Math_max (Fin 0) (Math_min (Fin 1) r))
               (Math_max (Fin 0) (Math_min (Fin 1) g))
               (Math_max (Fin 0) (Math_min (Fin 1) b)))"

section \<open>Watermark placement: \<open>generateWatermarkPositions\<close>\<close>

text \<open>
  Page geometry and sizes are finite numbers and are modelled as reals. The density
  reaches the generator as the result of \<open>parseInt(...) || 3\<close> and is an integer.
  The fields \<open>x\<close>, \<open>y\<close> and \<open>size\<close> of a position carry the prefix \<open>pos_\<close>.
\<close>

record position =
  pos_x :: real
  pos_y :: real
  pos_size :: real

text \<open>
  The test of the source's \<open>positions.some(...)\<close>:
  \<open>Math.abs(pos.x - x) < 50 && Math.abs(pos.y - y) < 50\<close>.
\<close>

definition isDuplicate :: "position list \<Rightarrow> real \<Rightarrow> real \<Rightarrow> bool" where
  "isDuplicate positions px py =
     list_ex (\<lambda>pos. \<bar>pos_x pos - px\<bar> < 50 \<and> \<bar>pos_y pos - py\<bar> < 50) positions"

text \<open>One loop body: \<open>if (!isDuplicate) positions.push({ x, y, size: fontSize })\<close>.\<close>

definition pushIfNew :: "real \<Rightarrow> position list \<Rightarrow> real \<times> real \<Rightarrow> position list" where
  "pushIfNew fontSize positions c =
     (if isDuplicate positions (fst c) (snd c) then positions
      else positions @ [\<lparr>pos_x = fst c, pos_y = snd c, pos_size = fontSize\<rparr>])"

text \<open>The five stamps that are pushed unconditionally: the centre and the four corners.\<close>

definition basePositions :: "real \<Rightarrow> real \<Rightarrow> real \<Rightarrow> position list" where
  "basePositions width height fontSize =
     [\<lparr>pos_x = width / 2, pos_y = height / 2, pos_size = fontSize * 1.5\<rparr>,
      \<lparr>pos_x = 100, pos_y = height - 100, pos_size = fontSize\<rparr>,
      \<lparr>pos_x = width - 100, pos_y = height - 100, pos_size = fontSize\<rparr>,
      \<lparr>pos_x = 100, pos_y = 100, pos_size = fontSize\<rparr>,
      \<lparr>pos_x = width - 100, pos_y = 100, pos_size = fontSize\<rparr>]"

text \<open>
  The points visited by the nested grid loops, in the order of the loops
  (\<open>row\<close> outside, \<open>col\<close> inside), each as \<open>(col * spacingX, row * spacingY)\<close>.
\<close>

definition gridPoints :: "real \<Rightarrow> real \<Rightarrow> int \<Rightarrow> (real \<times> real) list" where
  "gridPoints width height gridSize =
     (let spacingX = width / of_int gridSize;
          spacingY = height / of_int gridSize
      in concat (map (\<lambda>row. map (\<lambda>col. (of_int col * spacingX, of_int row * spacingY))
                                [0..gridSize])
                     [0..gridSize]))"

definition gridLayer :: "real \<Rightarrow> real \<Rightarrow> real \<Rightarrow> int \<Rightarrow> position list \<Rightarrow> position list" where
  "gridLayer width height fontSize density positions =
     (if density > 1
      then foldl (pushIfNew fontSize) positions
                 (gridPoints width height (max 2 (density * 2)))
      else positions)"

definition diagonal1 :: "real \<Rightarrow> real \<Rightarrow> int \<Rightarrow> (real \<times> real) list" where
  "diagonal1 width height diagonalCount =
     map (\<lambda>i. ((width / of_int diagonalCount) * of_int i,
               (height / of_int diagonalCount) * of_int i))
         [0..diagonalCount]"

definition diagonal2 :: "real \<Rightarrow> real \<Rightarrow> int \<Rightarrow> (real \<times> real) list" where
  "diagonal2 width height diagonalCount =
     map (\<lambda>i. ((width / of_int diagonalCount) * of_int i,
               height - (height / of_int diagonalCount) * of_int i))
         [0..diagonalCount]"

definition diagonalLayer :: "real \<Rightarrow> real \<Rightarrow> real \<Rightarrow> int \<Rightarrow> position list \<Rightarrow> position list" where
  "diagonalLayer width height fontSize density positions =
     (if density \<ge> 4
      then foldl (pushIfNew fontSize)
             (foldl (pushIfNew fontSize) positions (diagonal1 width height (density * 2)))
             (diagonal2 width height (density * 2))
      else positions)"

text \<open>
  The positions pushed before the random layer: the base stamps, then the grid, then the
  two diagonals.
\<close>

definition nonRandomPositions :: "real \<Rightarrow> real \<Rightarrow> real \<Rightarrow> int \<Rightarrow> position list" where
  "nonRandomPositions width height fontSize density =
     diagonalLayer width height fontSize density
       (gridLayer width height fontSize density
          (basePositions width height fontSize))"

text \<open>
  \<open>Math.random()\<close> is a stream \<open>rnd\<close>: \<open>rnd k\<close> is the value of the \<open>k\<close>-th call
  made from here on. Each of the 15 iterations calls it three times, for \<open>x\<close>, for
  \<open>y\<close> and for the size, in this order.
\<close>

definition randomLayer :: "(nat \<Rightarrow> real) \<Rightarrow> real \<Rightarrow> real \<Rightarrow> real \<Rightarrow> position list" where
  "randomLayer rnd width height fontSize =
     map (\<lambda>i. \<lparr>pos_x = rnd (3 * i) * width,
               pos_y = rnd (3 * i + 1) * height,
               pos_size = fontSize * (0.8 + rnd (3 * i + 2) * 0.4)\<rparr>)
         [0..<15]"

definition generateWatermarkPositions ::
  "(nat \<Rightarrow> real) \<Rightarrow> real \<Rightarrow> real \<Rightarrow> real \<Rightarrow> int \<Rightarrow> position list" where
  "generateWatermarkPositions rnd width height fontSize density =
     nonRandomPositions width height fontSize density @
     (if density = 5 then randomLayer rnd width height fontSize else [])"

section \<open>The watermark options\<close>

text \<open>
  A numeric option arrives as a number (the form passes numbers), as a string, as
  \<open>null\<close> or not at all (\<open>undefined\<close>). \<open>parseInt\<close> and \<open>parseFloat\<close> first
  turn their argument into a string.
\<close>

datatype jsval = Undefined | Null | Str jsstring | Num jsnum

text \<open>
  \<open>parseInt\<close> of a number, that is, of the string \<open>Number::toString\<close> prints. A
  magnitude from \<open>1e-6\<close> up to, not including, \<open>1e21\<close> is printed in decimal notation,
  whose integer part \<open>parseInt\<close> reads; any other magnitude is printed in exponent
  notation, of which \<open>parseInt\<close> reads the leading digit only. \<open>NaN\<close> and the
  infinities print as words and parse to \<open>NaN\<close>.
\<close>

definition leadingDigit :: "real \<Rightarrow> int" where
  "leadingDigit a =
     (if 1 \<le> a then int (nat \<lfloor>a\<rfloor> div 10 ^ (floorlog 10 (nat \<lfloor>a\<rfloor>) - 1))
      else \<lfloor>a * 10 ^ floorlog 10 (nat (\<lceil>1 / a\<rceil> - 1))\<rfloor>)"

definition parseIntOfNumber :: "jsnum \<Rightarrow> int option" where
  "parseIntOfNumber n =
     (case n of
        Fin v \<Rightarrow>
          (let a = \<bar>v\<bar>;
               m = (if a = 0 then 0
                    else if 1 / 10 ^ 6 \<le> a \<and> a < 10 ^ 21 then \<lfloor>a\<rfloor>
                    else leadingDigit a)
           in Some (if v < 0 then - m else m))
      | _ \<Rightarrow> None)"

fun parseIntOf :: "jsval \<Rightarrow> int option" where
  "parseIntOf Undefined = parseInt (ascii ''undefined'') 0"
| "parseIntOf Null = parseInt (ascii ''null'') 0"
| "parseIntOf (Str s) = parseInt s 0"
| "parseIntOf (Num n) = parseIntOfNumber n"

text \<open>
  \<open>parseFloat\<close> of a number reads back the number that was printed.
\<close>

fun parseFloatOf :: "jsval \<Rightarrow> jsnum" where
  "parseFloatOf Undefined = parseFloat (ascii ''undefined'')"
| "parseFloatOf Null = parseFloat (ascii ''null'')"
| "parseFloatOf (Str s) = parseFloat s"
| "parseFloatOf (Num n) = n"

text \<open>
  \<open>a || d\<close> is \<open>d\<close> when \<open>a\<close> is falsy: an absent or empty string, \<open>NaN\<close> or zero.
\<close>

definition orString :: "jsstring option \<Rightarrow> jsstring \<Rightarrow> jsstring" where
  "orString v d = (case v of None \<Rightarrow> d | Some s \<Rightarrow> if s = [] then d else s)"

definition orNumber :: "jsnum \<Rightarrow> real \<Rightarrow> jsnum" where
  "orNumber v d = (if v = NaN \<or> v = Fin 0 then Fin d else v)"

definition orInt :: "int option \<Rightarrow> int \<Rightarrow> int" where
  "orInt v d = (case v of None \<Rightarrow> d | Some k \<Rightarrow> if k = 0 then d else k)"

text \<open>
  The argument \<open>watermarkOptions\<close>. Text and colour are strings or absent, as the
  documentation of the function declares them.
\<close>

record rawOptions =
  raw_text :: "jsstring option"
  raw_color :: "jsstring option"
  raw_opacity :: jsval
  raw_fontSize :: jsval
  raw_rotation :: jsval
  raw_density :: jsval

record options =
  opt_text :: jsstring
  opt_color :: jsstring
  opt_opacity :: jsnum
  opt_fontSize :: int
  opt_rotation :: int
  opt_density :: int

text \<open>
  The object \<open>options\<close> built at the head of \<open>addWatermarkToPDF\<close>. The default text
  is the four code units of the source's literal.
\<close>

definition normalizedOptions :: "rawOptions \<Rightarrow> options" where
  "normalizedOptions watermarkOptions =
     \<lparr>opt_text = orString (raw_text watermarkOptions) [0x6C34, 0x5370, 0x6587, 0x672C],
      opt_color = orString (raw_color watermarkOptions) (ascii ''#000000''),
      opt_opacity = orNumber (parseFloatOf (raw_opacity watermarkOptions)) 0.5,
      opt_fontSize = orInt (parseIntOf (raw_fontSize watermarkOptions)) 50,
      opt_rotation = orInt (parseIntOf (raw_rotation watermarkOptions)) (- 45),
      opt_density = orInt (parseIntOf (raw_density watermarkOptions)) 3\<rparr>"

section \<open>The orchestrator: \<open>addWatermarkToPDF\<close>\<close>

text \<open>
  The collaborators (file reader, pdf-lib, \<open>fetch\<close>, file-saver, \<open>Math.random\<close>) are
  parameters. The calls that the specification's boundary contract lets fail (reading the
  file, \<open>load\<close>, \<open>fetch\<close> and the reading of its body, \<open>embedFont\<close>, \<open>save\<close>)
  return the thrown value on the left; \<open>registerFontkit\<close>, \<open>getPages\<close>, \<open>getSize\<close>,
  \<open>drawText\<close> and \<open>saveAs\<close> are taken not to throw. \<open>embedFont\<close> gives the same
  outcome each time it is called with the same argument. What the function does to the
  outside is a trace of events: the \<open>drawText\<close> calls, each with its page index, and the
  \<open>saveAs\<close> call with the bytes, the type and the name of the download. Console output
  is left out.
\<close>

type_synonym bytes = "8 word list"

datatype thrown = Thrown jsstring

record response =
  ok :: bool
  statusText :: jsstring
  arrayBuffer :: "thrown + bytes"

record jsFile =
  fileName :: jsstring
  fileRead :: "thrown + bytes"

datatype fontSource = FontData bytes | HelveticaBold

datatype font = PDFFont nat

record pdfDocument =
  docSource :: bytes
  pageSizes :: "(real \<times> real) list"

record drawTextOptions =
  draw_x :: real
  draw_y :: real
  draw_size :: real
  draw_font :: font
  draw_opacity :: jsnum
  draw_color :: RGB
  draw_rotate :: "int option"

datatype event =
    DrawText nat jsstring drawTextOptions
  | SaveAs bytes jsstring jsstring

record collaborators =
  pdfLoad :: "bytes \<Rightarrow> thrown + pdfDocument"
  fetch :: "jsstring \<Rightarrow> thrown + response"
  embedFont :: "fontSource \<Rightarrow> thrown + font"
  pdfSave :: "pdfDocument \<Rightarrow> event list \<Rightarrow> thrown + bytes"
  random :: "nat \<Rightarrow> real"

text \<open>What a JavaScript function may hand back here: a boolean or a byte array.\<close>

datatype returned = ReturnedBool bool | ReturnedBytes bytes

definition readFileAsArrayBuffer :: "jsFile \<Rightarrow> thrown + bytes" where
  "readFileAsArrayBuffer f = fileRead f"

text \<open>The test of \<open>options.text\<close> for a code unit in the range U+4E00 to U+9FA5.\<close>

definition containsChinese :: "jsstring \<Rightarrow> bool" where
  "containsChinese s = list_ex (\<lambda>c. 0x4E00 \<le> c \<and> c \<le> 0x9FA5) s"

text \<open>
  The inner \<open>try\<close> block: fetch the font file, throw when the response is not ok (the
  message is the source's literal followed by the status text), read the body and embed it.
\<close>

definition loadChineseFont :: "collaborators \<Rightarrow> thrown + font" where
  "loadChineseFont env =
     (case fetch env (ascii ''/src/assets/fonts/simhei.ttf'') of
        Inl e \<Rightarrow> Inl e
      | Inr fontResponse \<Rightarrow>
          if \<not> ok fontResponse
          then Inl (Thrown ([0x65E0, 0x6CD5, 0x52A0, 0x8F7D, 0x672C, 0x5730, 0x5B57, 0x4F53,
                             0x3A, 0x20] @ statusText fontResponse))
          else (case arrayBuffer fontResponse of
                  Inl e \<Rightarrow> Inl e
                | Inr fontData \<Rightarrow> embedFont env (FontData fontData)))"

text \<open>
  The inner \<open>try\<close> with its \<open>catch\<close>: the font, the flag \<open>useChineseFont\<close> and the text
  to draw. A failure of the fallback embedding inside the \<open>catch\<close> is not caught.
\<close>

definition loadFont :: "collaborators \<Rightarrow> jsstring \<Rightarrow> thrown + (font \<times> bool \<times> jsstring)" where
  "loadFont env wtext =
     (case loadChineseFont env of
        Inr f \<Rightarrow> Inr (f, True, wtext)
      | Inl fontError \<Rightarrow>
          (case embedFont env HelveticaBold of
             Inl e \<Rightarrow> Inl e
           | Inr f \<Rightarrow>
               Inr (f, False, if containsChinese wtext then ascii ''CONFIDENTIAL'' else wtext)))"

text \<open>The \<open>drawText\<close> call of the inner loop, at one position.\<close>

definition pageStamp ::
  "nat \<Rightarrow> jsstring \<Rightarrow> font \<Rightarrow> jsnum \<Rightarrow> RGB \<Rightarrow> int \<Rightarrow> position \<Rightarrow> event" where
  "pageStamp i wtext f opacity color rotation pos =
     DrawText i wtext
       \<lparr>draw_x = pos_x pos, draw_y = pos_y pos, draw_size = pos_size pos,
        draw_font = f, draw_opacity = opacity, draw_color = color,
        draw_rotate = Some rotation\<rparr>"

text \<open>The diagnostic stamp drawn on each page when the fallback font is in use.\<close>

definition testDraw :: "nat \<Rightarrow> real \<Rightarrow> real \<Rightarrow> font \<Rightarrow> event" where
  "testDraw i width height f =
     DrawText i (ascii ''TEST WATERMARK'')
       \<lparr>draw_x = width - 200, draw_y = height - 50, draw_size = 20,
        draw_font = f, draw_opacity = Fin 1, draw_color = rgb (Fin 1) (Fin 0) (Fin 0),
        draw_rotate = None\<rparr>"

text \<open>
  The loop over the pages. \<open>i\<close> is the index of the page, \<open>trace\<close> the events so far
  and \<open>calls\<close> the number of calls of \<open>Math.random\<close> so far (45 per page at density 5).
  The result is the thrown value, if any, and the trace.
\<close>

fun watermarkPages ::
  "collaborators \<Rightarrow> options \<Rightarrow> font \<Rightarrow> bool \<Rightarrow> RGB \<Rightarrow> nat \<Rightarrow> (real \<times> real) list \<Rightarrow>
   event list \<Rightarrow> nat \<Rightarrow> thrown option \<times> event list" where
  "watermarkPages env opts f useChineseFont watermarkColor i [] trace calls = (None, trace)"
| "watermarkPages env opts f useChineseFont watermarkColor i (wh # pages) trace calls =
     (let width = fst wh; height = snd wh;
          positions = generateWatermarkPositions (\<lambda>k. random env (calls + k)) width height
                        (of_int (opt_fontSize opts)) (opt_density opts);
          calls' = (if opt_density opts = 5 then calls + 45 else calls);
          trace' = trace @ map (pageStamp i (opt_text opts) f (opt_opacity opts) watermarkColor
                                  (opt_rotation opts)) positions
      in if \<not> useChineseFont then
           (case embedFont env HelveticaBold of
              Inl e \<Rightarrow> (Some e, trace')
            | Inr tf \<Rightarrow>
                watermarkPages env opts f useChineseFont watermarkColor (Suc i) pages
                  (trace' @ [testDraw i width height tf]) calls')
         else watermarkPages env opts f useChineseFont watermarkColor (Suc i) pages trace' calls')"

text \<open>
  \<open>addWatermarkToPDF(file, watermarkOptions)\<close>: the outcome (the thrown value, which the
  outer \<open>catch\<close> throws again, or the returned value) and the trace of events.
\<close>

definition addWatermarkToPDF ::
  "collaborators \<Rightarrow> jsFile \<Rightarrow> rawOptions \<Rightarrow> (thrown + returned) \<times> event list" where
  "addWatermarkToPDF env f watermarkOptions =
     (let opts = normalizedOptions watermarkOptions
      in case readFileAsArrayBuffer f of
           Inl e \<Rightarrow> (Inl e, [])
         | Inr fileData \<Rightarrow>
             (case pdfLoad env fileData of
                Inl e \<Rightarrow> (Inl e, [])
              | Inr pdfDoc \<Rightarrow>
                  (case loadFont env (opt_text opts) of
                     Inl e \<Rightarrow> (Inl e, [])
                   | Inr (fnt, useChineseFont, wtext) \<Rightarrow>
                       (let watermarkColor = parseColor (opt_color opts)
                        in case watermarkPages env (opts\<lparr>opt_text := wtext\<rparr>) fnt useChineseFont
                                  watermarkColor 0 (pageSizes pdfDoc) [] 0 of
                             (Some e, trace) \<Rightarrow> (Inl e, trace)
                           | (None, trace) \<Rightarrow>
                               (case pdfSave env pdfDoc trace of
                                  Inl e \<Rightarrow> (Inl e, trace)
                                | Inr modifiedPdfBytes \<Rightarrow>
                                    (Inr (ReturnedBool True),
                                     trace @ [SaveAs modifiedPdfBytes (ascii ''application/pdf'')
                                                (ascii ''watermarked_'' @ fileName f)]))))))"

section \<open>Vocabulary of the properties\<close>

text \<open>A channel value that lies in the interval from 0 to 1.\<close>

definition inUnitInterval :: "jsnum \<Rightarrow> bool" where
  "inUnitInterval v = (case v of Fin u \<Rightarrow> 0 \<le> u \<and> u \<le> 1 | _ \<Rightarrow> False)"

text \<open>
  The specification's \<open>hexToInt\<close> of a pair of hexadecimal digits, written from its words
  and independent of \<open>parseInt\<close>: a table of the sixteen digits in both cases.
\<close>

definition isHexDigit :: "code_unit \<Rightarrow> bool" where
  "isHexDigit c \<longleftrightarrow> c \<in> set (ascii ''0123456789abcdefABCDEF'')"

definition hexDigitValue :: "code_unit \<Rightarrow> nat" where
  "hexDigitValue c =
     (case map_of (zip (ascii ''0123456789abcdefABCDEF'')
                       [0, 1, 2, 3, 4, 5, 6, 7, 8, 9, 10, 11, 12, 13, 14, 15,
                        10, 11, 12, 13, 14, 15]) c of
        None \<Rightarrow> 0 | Some d \<Rightarrow> d)"

definition hexToInt :: "jsstring \<Rightarrow> nat" where
  "hexToInt s = (case s of [a, b] \<Rightarrow> 16 * hexDigitValue a + hexDigitValue b | _ \<Rightarrow> 0)"

text \<open>
  From index \<open>n\<close> on, every position of a list is at least 50 units away, on one axis
  or the other, from every position before it.
\<close>

definition separatedFrom :: "nat \<Rightarrow> position list \<Rightarrow> bool" where
  "separatedFrom n ps \<longleftrightarrow>
     (\<forall>j < length ps. n \<le> j \<longrightarrow>
        (\<forall>i < j. \<not> (\<bar>pos_x (ps ! i) - pos_x (ps ! j)\<bar> < 50 \<and>
                     \<bar>pos_y (ps ! i) - pos_y (ps ! j)\<bar> < 50)))"

text \<open>The position that \<open>pushIfNew\<close> appends for a point.\<close>

definition stamp :: "real \<Rightarrow> real \<times> real \<Rightarrow> position" where
  "stamp fontSize c = \<lparr>pos_x = fst c, pos_y = snd c, pos_size = fontSize\<rparr>"

definition nonRandomCount :: "real \<Rightarrow> real \<Rightarrow> real \<Rightarrow> int \<Rightarrow> nat" where
  "nonRandomCount width height fontSize density =
     length (nonRandomPositions width height fontSize density)"

fun isDrawText :: "event \<Rightarrow> bool" where
  "isDrawText (DrawText i t opts) = True"
| "isDrawText (SaveAs b m n) = False"


subsection \<open>Sample runs\<close>

text \<open>
  A document of two pages of 600 by 800 points, a file that reads and one that does not,
  and collaborators: with the font file present, with the font file missing, with the
  font file missing and no font that embeds, and with a document that does not load or
  does not serialise.
\<close>

definition samplePdf :: "bytes \<Rightarrow> pdfDocument" where
  "samplePdf b = \<lparr>docSource = b, pageSizes = [(600, 800), (600, 800)]\<rparr>"

definition workingEnv :: collaborators where
  "workingEnv =
     \<lparr>pdfLoad = (\<lambda>b. Inr (samplePdf b)),
      fetch = (\<lambda>p. Inr \<lparr>ok = True, statusText = ascii ''OK'', arrayBuffer = Inr [0, 1, 0, 0]\<rparr>),
      embedFont = (\<lambda>s. case s of FontData d \<Rightarrow> Inr (PDFFont 0) | HelveticaBold \<Rightarrow> Inr (PDFFont 1)),
      pdfSave = (\<lambda>d t. Inr [0x25, 0x50, 0x44, 0x46]),
      random = (\<lambda>k. 0)\<rparr>"

definition failingFetchEnv :: collaborators where
  "failingFetchEnv = workingEnv\<lparr>fetch := (\<lambda>p. Inl (Thrown (ascii ''Failed to fetch'')))\<rparr>"

definition failingFontsEnv :: collaborators where
  "failingFontsEnv =
     failingFetchEnv\<lparr>embedFont := (\<lambda>s. Inl (Thrown (ascii ''embedFont failed'')))\<rparr>"

definition failingLoadEnv :: collaborators where
  "failingLoadEnv = workingEnv\<lparr>pdfLoad := (\<lambda>b. Inl (Thrown (ascii ''No PDF header found'')))\<rparr>"

definition failingSaveEnv :: collaborators where
  "failingSaveEnv = workingEnv\<lparr>pdfSave := (\<lambda>d t. Inl (Thrown (ascii ''save failed'')))\<rparr>"

definition draftFile :: jsFile where
  "draftFile = \<lparr>fileName = ascii ''draft.pdf'', fileRead = Inr [0x25, 0x50, 0x44, 0x46, 0x2D]\<rparr>"

definition unreadableFile :: jsFile where
  "unreadableFile =
     \<lparr>fileName = ascii ''draft.pdf'', fileRead = Inl (Thrown (ascii ''NotReadableError''))\<rparr>"

definition draftOptions :: rawOptions where
  "draftOptions =
     \<lparr>raw_text = Some (ascii ''DRAFT''), raw_color = Some (ascii ''#FF0000''),
      raw_opacity = Num (Fin 0.5), raw_fontSize = Num (Fin 40), raw_rotation = Num (Fin 30),
      raw_density = Num (Fin 1)\<rparr>"

text \<open>
  The options of the specification's example of normalization: a string that is no
  number, \<open>null\<close>, \<open>undefined\<close> and a letter.
\<close>

definition unparsableOptions :: rawOptions where
  "unparsableOptions =
     \<lparr>raw_text = None, raw_color = None, raw_opacity = Str (ascii ''abc''),
      raw_fontSize = Null, raw_rotation = Undefined, raw_density = Str (ascii ''x'')\<rparr>"

section \<open>The base layout\<close>

text \<open>
  C1. For positive width, height and font size and density 1 the generator returns exactly
  five positions: the centre stamp at (width/2, height/2) of size fontSize * 1.5, then the
  corner stamps of size fontSize at (100, height - 100), (width - 100, height - 100),
  (100, 100) and (width - 100, 100), in this order.
\<close>

theorem density_one_base_layout:
  assumes "0 < width" and "0 < height" and "0 < fontSize"
  shows "generateWatermarkPositions rnd width height fontSize 1 =
           [\<lparr>pos_x = width / 2, pos_y = height / 2, pos_size = fontSize * 1.5\<rparr>,
            \<lparr>pos_x = 100, pos_y = height - 100, pos_size = fontSize\<rparr>,
            \<lparr>pos_x = width - 100, pos_y = height - 100, pos_size = fontSize\<rparr>,
            \<lparr>pos_x = 100, pos_y = 100, pos_size = fontSize\<rparr>,
            \<lparr>pos_x = width - 100, pos_y = 100, pos_size = fontSize\<rparr>]
         \<and> length (generateWatermarkPositions rnd width height fontSize 1) = 5"
  by (simp add: generateWatermarkPositions_def nonRandomPositions_def diagonalLayer_def
      gridLayer_def basePositions_def)

text \<open>C1 on a page of 600 by 800 points with font size 40.\<close>

theorem density_one_base_layout_witness:
  "(0::real) < 600 \<and> (0::real) < 800 \<and> (0::real) < 40 \<and>
   generateWatermarkPositions (\<lambda>k. 0) 600 800 40 1 =
     [\<lparr>pos_x = 300, pos_y = 400, pos_size = 60\<rparr>,
      \<lparr>pos_x = 100, pos_y = 700, pos_size = 40\<rparr>,
      \<lparr>pos_x = 500, pos_y = 700, pos_size = 40\<rparr>,
      \<lparr>pos_x = 100, pos_y = 100, pos_size = 40\<rparr>,
      \<lparr>pos_x = 500, pos_y = 100, pos_size = 40\<rparr>]"
  using density_one_base_layout [of 600 800 40 "\<lambda>k. 0"] by simp

section \<open>Duplicate exclusion\<close>

lemma isDuplicate_iff:
  "isDuplicate ps px py \<longleftrightarrow>
     (\<exists>i < length ps. \<bar>pos_x (ps ! i) - px\<bar> < 50 \<and> \<bar>pos_y (ps ! i) - py\<bar> < 50)"
  unfolding isDuplicate_def list_ex_iff by (metis in_set_conv_nth)

lemma separatedFrom_pushIfNew:
  assumes "separatedFrom n ps"
  shows "separatedFrom n (pushIfNew f ps c)"
proof (cases "isDuplicate ps (fst c) (snd c)")
  case True
  then show ?thesis using assms by (simp add: pushIfNew_def)
next
  case False
  show ?thesis
    unfolding separatedFrom_def
  proof (intro allI impI)
    fix j i
    assume j: "j < length (pushIfNew f ps c)" and "n \<le> j" and i: "i < j"
    let ?qs = "pushIfNew f ps c"
    have qs: "?qs = ps @ [\<lparr>pos_x = fst c, pos_y = snd c, pos_size = f\<rparr>]"
      using False by (simp add: pushIfNew_def)
    show "\<not> (\<bar>pos_x (?qs ! i) - pos_x (?qs ! j)\<bar> < 50 \<and>
              \<bar>pos_y (?qs ! i) - pos_y (?qs ! j)\<bar> < 50)"
    proof (cases "j < length ps")
      case True
      then show ?thesis
        using assms \<open>n \<le> j\<close> i by (simp add: qs separatedFrom_def nth_append)
    next
      case False
      then have "j = length ps" using j by (simp add: qs)
      then show ?thesis
        using \<open>\<not> isDuplicate ps (fst c) (snd c)\<close> i
        by (auto simp: qs nth_append isDuplicate_iff)
    qed
  qed
qed

lemma separatedFrom_foldl:
  "separatedFrom n ps \<Longrightarrow> separatedFrom n (foldl (pushIfNew f) ps cs)"
  by (induction cs arbitrary: ps) (simp_all add: separatedFrom_pushIfNew)

lemma separatedFrom_nonRandom:
  "separatedFrom 5 (nonRandomPositions w h f d)"
proof -
  have "separatedFrom 5 (basePositions w h f)"
    by (simp add: separatedFrom_def basePositions_def)
  then show ?thesis
    by (simp add: nonRandomPositions_def diagonalLayer_def gridLayer_def separatedFrom_foldl)
qed

text \<open>
  C2, as the code has it. The five base stamps are pushed without any test, so the
  exclusion holds for the stamps of the grid and of the diagonals only: two distinct
  non-random positions of which at least one was added after the base stamps (index 5
  or more) never differ by less than 50 units on both axes, for every width, height,
  font size and density.
\<close>

theorem layered_positions_separated:
  assumes "i < length (nonRandomPositions width height fontSize density)"
    and "j < length (nonRandomPositions width height fontSize density)"
    and "i \<noteq> j" and "5 \<le> i \<or> 5 \<le> j"
  shows "\<not> (\<bar>pos_x (nonRandomPositions width height fontSize density ! i) -
              pos_x (nonRandomPositions width height fontSize density ! j)\<bar> < 50 \<and>
            \<bar>pos_y (nonRandomPositions width height fontSize density ! i) -
              pos_y (nonRandomPositions width height fontSize density ! j)\<bar> < 50)"
proof -
  let ?ps = "nonRandomPositions width height fontSize density"
  have sep: "separatedFrom 5 ?ps" by (rule separatedFrom_nonRandom)
  show ?thesis
  proof (cases "i < j")
    case True
    then have "5 \<le> j" using assms(4) by linarith
    then show ?thesis
      using sep assms(2) True by (simp add: separatedFrom_def)
  next
    case False
    then have ji: "j < i" using assms(3) by linarith
    then have "5 \<le> i" using assms(4) by linarith
    then have "\<not> (\<bar>pos_x (?ps ! j) - pos_x (?ps ! i)\<bar> < 50 \<and>
                   \<bar>pos_y (?ps ! j) - pos_y (?ps ! i)\<bar> < 50)"
      using sep assms(1) ji by (simp add: separatedFrom_def)
    then show ?thesis by (simp add: abs_minus_commute)
  qed
qed

lemma nonRandom_a4_density2_length: "length (nonRandomPositions 595 842 40 2) = 29"
  by code_simp

text \<open>
  C2 as amended, on an A4 page at density 2: the centre stamp (index 0) and the first
  stamp of the grid (index 5).
\<close>

theorem layered_positions_separated_witness:
  "(0::nat) < length (nonRandomPositions 595 842 40 2) \<and>
   (5::nat) < length (nonRandomPositions 595 842 40 2) \<and>
   (0::nat) \<noteq> 5 \<and> (5::nat) \<le> 5 \<and>
   \<not> (\<bar>pos_x (nonRandomPositions 595 842 40 2 ! 0) -
        pos_x (nonRandomPositions 595 842 40 2 ! 5)\<bar> < 50 \<and>
      \<bar>pos_y (nonRandomPositions 595 842 40 2 ! 0) -
        pos_y (nonRandomPositions 595 842 40 2 ! 5)\<bar> < 50)"
  using layered_positions_separated [of 0 595 842 40 2 5]
  by (simp add: nonRandom_a4_density2_length)

text \<open>
  C2 as stated fails among the base stamps. On a page of 600 by 220 points the top-left
  corner stamp (index 1) lies at (100, 120) and the bottom-left one (index 3) at
  (100, 100): two distinct positions of the output that differ by 0 and by 20 units.
\<close>

theorem base_stamps_not_separated:
  "(1::nat) < length (nonRandomPositions 600 220 40 1) \<and>
   (3::nat) < length (nonRandomPositions 600 220 40 1) \<and>
   nonRandomPositions 600 220 40 1 ! 1 = \<lparr>pos_x = 100, pos_y = 120, pos_size = 40\<rparr> \<and>
   nonRandomPositions 600 220 40 1 ! 3 = \<lparr>pos_x = 100, pos_y = 100, pos_size = 40\<rparr> \<and>
   nonRandomPositions 600 220 40 1 ! 1 \<noteq> nonRandomPositions 600 220 40 1 ! 3 \<and>
   \<bar>pos_x (nonRandomPositions 600 220 40 1 ! 1) - pos_x (nonRandomPositions 600 220 40 1 ! 3)\<bar> < 50 \<and>
   \<bar>pos_y (nonRandomPositions 600 220 40 1 ! 1) - pos_y (nonRandomPositions 600 220 40 1 ! 3)\<bar> < 50"
  by (simp add: nonRandomPositions_def diagonalLayer_def gridLayer_def basePositions_def)

section \<open>Density and the number of positions\<close>

lemma length_foldl_pushIfNew_le:
  "length (foldl (pushIfNew f) ps cs) \<le> length ps + length cs"
proof (induction cs arbitrary: ps)
  case Nil
  show ?case by simp
next
  case (Cons c cs)
  have "length (pushIfNew f ps c) \<le> Suc (length ps)"
    by (simp add: pushIfNew_def)
  with Cons [of "pushIfNew f ps c"] show ?case by simp
qed

lemma length_foldl_pushIfNew_ge:
  "length ps \<le> length (foldl (pushIfNew f) ps cs)"
proof (induction cs arbitrary: ps)
  case Nil
  show ?case by simp
next
  case (Cons c cs)
  have "length ps \<le> length (pushIfNew f ps c)"
    by (simp add: pushIfNew_def)
  with Cons [of "pushIfNew f ps c"] show ?case by simp
qed

lemma isDuplicate_append:
  "isDuplicate (ps @ [stamp f c]) px py \<longleftrightarrow>
     isDuplicate ps px py \<or> (\<bar>fst c - px\<bar> < 50 \<and> \<bar>snd c - py\<bar> < 50)"
  by (simp add: isDuplicate_def stamp_def)

lemma foldl_pushIfNew_far:
  assumes "distinct cs"
    and "\<And>a b. a \<in> set cs \<Longrightarrow> b \<in> set cs \<Longrightarrow> a \<noteq> b \<Longrightarrow>
           \<not> (\<bar>fst a - fst b\<bar> < 50 \<and> \<bar>snd a - snd b\<bar> < 50)"
  shows "foldl (pushIfNew f) ps cs =
           ps @ map (stamp f) (filter (\<lambda>c. \<not> isDuplicate ps (fst c) (snd c)) cs)"
  using assms
proof (induction cs arbitrary: ps)
  case Nil
  show ?case by simp
next
  case (Cons c cs)
  have d: "distinct cs" using Cons.prems(1) by simp
  have far: "\<And>a b. a \<in> set cs \<Longrightarrow> b \<in> set cs \<Longrightarrow> a \<noteq> b \<Longrightarrow>
           \<not> (\<bar>fst a - fst b\<bar> < 50 \<and> \<bar>snd a - snd b\<bar> < 50)"
    using Cons.prems(2) by simp
  show ?case
  proof (cases "isDuplicate ps (fst c) (snd c)")
    case True
    then have "pushIfNew f ps c = ps" by (simp add: pushIfNew_def)
    then show ?thesis using Cons.IH [OF d far, of ps] True by simp
  next
    case False
    then have p: "pushIfNew f ps c = ps @ [stamp f c]"
      by (simp add: pushIfNew_def stamp_def)
    have same: "filter (\<lambda>c'. \<not> isDuplicate (ps @ [stamp f c]) (fst c') (snd c')) cs =
                filter (\<lambda>c'. \<not> isDuplicate ps (fst c') (snd c')) cs"
    proof (rule filter_cong [OF refl])
      fix c' assume c': "c' \<in> set cs"
      then have "c \<noteq> c'" using Cons.prems(1) by auto
      then have "\<not> (\<bar>fst c - fst c'\<bar> < 50 \<and> \<bar>snd c - snd c'\<bar> < 50)"
        using Cons.prems(2) [of c c'] c' by simp
      then show "(\<not> isDuplicate (ps @ [stamp f c]) (fst c') (snd c')) =
                 (\<not> isDuplicate ps (fst c') (snd c'))"
        by (simp add: isDuplicate_append)
    qed
    show ?thesis
      using Cons.IH [OF d far, of "ps @ [stamp f c]"] False
      by (simp add: p same)
  qed
qed

lemma length_filter_isDuplicate:
  "length (filter (\<lambda>c. isDuplicate ps (fst c) (snd c)) cs) \<le>
     (\<Sum>p\<leftarrow>ps. length (filter (\<lambda>c. \<bar>pos_x p - fst c\<bar> < 50 \<and> \<bar>pos_y p - snd c\<bar> < 50) cs))"
proof (induction ps)
  case Nil
  show ?case by (simp add: isDuplicate_def)
next
  case (Cons p ps)
  let ?A = "\<lambda>c. \<bar>pos_x p - fst c\<bar> < 50 \<and> \<bar>pos_y p - snd c\<bar> < 50"
  let ?B = "\<lambda>c. isDuplicate ps (fst c) (snd c)"
  have "length (filter (\<lambda>c. ?A c \<or> ?B c) cs) \<le> length (filter ?A cs) + length (filter ?B cs)"
    by (induction cs) auto
  moreover have "(\<lambda>c. isDuplicate (p # ps) (fst c) (snd c)) = (\<lambda>c. ?A c \<or> ?B c)"
    by (simp add: isDuplicate_def)
  ultimately show ?case using Cons by simp
qed

lemma near_multiples:
  fixes s p :: real
  assumes "50 \<le> s"
  shows "length (filter (\<lambda>k. \<bar>p - of_int k * s\<bar> < 50) [a..b]) \<le> 2"
proof -
  define m where "m = \<lfloor>(p - 50) / s\<rfloor>"
  have s: "0 < s" using assms by simp
  have sub: "{k. \<bar>p - of_int k * s\<bar> < 50} \<inter> set [a..b] \<subseteq> {m + 1, m + 2}"
  proof
    fix k assume "k \<in> {k. \<bar>p - of_int k * s\<bar> < 50} \<inter> set [a..b]"
    then have k: "\<bar>p - of_int k * s\<bar> < 50" by simp
    then have lo: "p - 50 < of_int k * s" and hi: "of_int k * s < p + 50" by linarith+
    from lo have "(p - 50) / s < of_int k" using s by (simp add: pos_divide_less_eq)
    then have "of_int m < (of_int k :: real)" unfolding m_def by linarith
    then have 1: "m + 1 \<le> k" by linarith
    have "of_int k * s < (p - 50) + 2 * s" using hi assms by linarith
    then have "of_int k < (p - 50) / s + 2" using s by (simp add: field_simps)
    moreover have "(p - 50) / s < of_int m + 1" unfolding m_def by linarith
    ultimately have "(of_int k :: real) < of_int m + 3" by linarith
    then have 2: "k \<le> m + 2" by linarith
    from 1 2 show "k \<in> {m + 1, m + 2}" by auto
  qed
  have "length (filter (\<lambda>k. \<bar>p - of_int k * s\<bar> < 50) [a..b]) =
        card ({k. \<bar>p - of_int k * s\<bar> < 50} \<inter> set [a..b])"
    by (rule distinct_length_filter) simp
  also have "\<dots> \<le> card {m + 1, m + 2}"
    by (rule card_mono [OF _ sub]) simp
  also have "\<dots> \<le> 2" by (simp add: card_insert_if)
  finally show ?thesis .
qed

lemma length_filter_grid:
  "length (filter (\<lambda>c. A (fst c) \<and> B (snd c))
      (concat (map (\<lambda>row. map (\<lambda>col. (fx col, fy row)) cols) rows))) =
   length (filter (\<lambda>row. B (fy row)) rows) * length (filter (\<lambda>col. A (fx col)) cols)"
proof (induction rows)
  case Nil
  show ?case by simp
next
  case (Cons r rows)
  have "length (filter (\<lambda>c. A (fst c) \<and> B (snd c)) (map (\<lambda>col. (fx col, fy r)) cols)) =
        (if B (fy r) then length (filter (\<lambda>col. A (fx col)) cols) else 0)"
    by (induction cols) auto
  then show ?case using Cons by simp
qed

lemma near_gridPoints:
  assumes "0 < g" and "50 * of_int g \<le> w" and "50 * of_int g \<le> h"
  shows "length (filter (\<lambda>c. \<bar>px - fst c\<bar> < 50 \<and> \<bar>py - snd c\<bar> < 50) (gridPoints w h g)) \<le> 4"
proof -
  have g: "(0::real) < of_int g" using assms(1) by simp
  have sx: "50 \<le> w / of_int g" using assms(2) g by (simp add: pos_le_divide_eq)
  have sy: "50 \<le> h / of_int g" using assms(3) g by (simp add: pos_le_divide_eq)
  have "length (filter (\<lambda>c. \<bar>px - fst c\<bar> < 50 \<and> \<bar>py - snd c\<bar> < 50) (gridPoints w h g)) =
        length (filter (\<lambda>row. \<bar>py - of_int row * (h / of_int g)\<bar> < 50) [0..g]) *
        length (filter (\<lambda>col. \<bar>px - of_int col * (w / of_int g)\<bar> < 50) [0..g])"
    unfolding gridPoints_def Let_def
    by (rule length_filter_grid [where A = "\<lambda>u. \<bar>px - u\<bar> < 50" and B = "\<lambda>v. \<bar>py - v\<bar> < 50"])
  also have "\<dots> \<le> 2 * 2"
    by (rule mult_le_mono [OF near_multiples [OF sy] near_multiples [OF sx]])
  finally show ?thesis by simp
qed

lemma distinct_gridPoints:
  assumes "0 < g" and "0 < w" and "0 < h"
  shows "distinct (gridPoints w h g)"
proof -
  have g: "(0::real) < of_int g" using assms(1) by simp
  have sx: "w / of_int g \<noteq> 0" and sy: "h / of_int g \<noteq> 0" using assms g by auto
  show ?thesis
    unfolding gridPoints_def Let_def
    apply (rule distinct_concat)
      apply (simp add: distinct_map inj_on_def)
    using sx sy apply (auto simp: distinct_map inj_on_def)
    done
qed

lemma far_gridPoints:
  assumes "0 < g" and "50 * of_int g \<le> w" and "50 * of_int g \<le> h"
    and a: "a \<in> set (gridPoints w h g)" and b: "b \<in> set (gridPoints w h g)" and "a \<noteq> b"
  shows "\<not> (\<bar>fst a - fst b\<bar> < 50 \<and> \<bar>snd a - snd b\<bar> < 50)"
proof -
  have g: "(0::real) < of_int g" using assms(1) by simp
  have sx: "50 \<le> w / of_int g" using assms(2) g by (simp add: pos_le_divide_eq)
  have sy: "50 \<le> h / of_int g" using assms(3) g by (simp add: pos_le_divide_eq)
  obtain c r where ab: "a = (of_int c * (w / of_int g), of_int r * (h / of_int g))"
    using a by (auto simp: gridPoints_def)
  obtain c' r' where ab': "b = (of_int c' * (w / of_int g), of_int r' * (h / of_int g))"
    using b by (auto simp: gridPoints_def)
  have step: "\<And>(s::real) (k::int) k'. 50 \<le> s \<Longrightarrow> k \<noteq> k' \<Longrightarrow> 50 \<le> \<bar>of_int k * s - of_int k' * s\<bar>"
  proof -
    fix s :: real and k k' :: int
    assume s: "50 \<le> s" and "k \<noteq> k'"
    then have "1 \<le> \<bar>k - k'\<bar>" by linarith
    then have "(1::real) \<le> \<bar>of_int k - of_int k'\<bar>" by linarith
    then have "1 * s \<le> \<bar>of_int k - of_int k'\<bar> * s"
      using s by (intro mult_right_mono) auto
    also have "\<dots> = \<bar>of_int k * s - of_int k' * s\<bar>"
      using s by (simp add: abs_mult left_diff_distrib [symmetric])
    finally show "50 \<le> \<bar>of_int k * s - of_int k' * s\<bar>" using s by linarith
  qed
  from \<open>a \<noteq> b\<close> have "c \<noteq> c' \<or> r \<noteq> r'" using ab ab' by auto
  then show ?thesis
  proof
    assume "c \<noteq> c'"
    from step [OF sx this] show ?thesis by (simp add: ab ab')
  next
    assume "r \<noteq> r'"
    from step [OF sy this] show ?thesis by (simp add: ab ab')
  qed
qed

lemma length_gridPoints: "0 \<le> g \<Longrightarrow> length (gridPoints w h g) = nat ((g + 1) * (g + 1))"
  by (simp add: gridPoints_def length_concat comp_def sum_list_triv nat_mult_distrib nat_add_distrib)

lemma grid_lower:
  assumes "0 < g" and "50 * of_int g \<le> w" and "50 * of_int g \<le> h"
  shows "length ps + length (gridPoints w h g) \<le>
         length (foldl (pushIfNew f) ps (gridPoints w h g)) + 4 * length ps"
proof -
  let ?cs = "gridPoints w h g"
  have w: "0 < w" and h: "0 < h" using assms
    by (smt (verit) of_int_pos mult_pos_pos)+
  have eq: "foldl (pushIfNew f) ps ?cs =
        ps @ map (stamp f) (filter (\<lambda>c. \<not> isDuplicate ps (fst c) (snd c)) ?cs)"
    by (rule foldl_pushIfNew_far [OF distinct_gridPoints [OF assms(1) w h]])
       (rule far_gridPoints [OF assms])
  have "length (filter (\<lambda>c. isDuplicate ps (fst c) (snd c)) ?cs) \<le>
        (\<Sum>p\<leftarrow>ps. length (filter (\<lambda>c. \<bar>pos_x p - fst c\<bar> < 50 \<and> \<bar>pos_y p - snd c\<bar> < 50) ?cs))"
    by (rule length_filter_isDuplicate)
  also have "\<dots> \<le> (\<Sum>p\<leftarrow>ps. 4)"
    by (rule sum_list_mono) (rule near_gridPoints [OF assms])
  also have "\<dots> = 4 * length ps" by (simp add: sum_list_triv)
  finally have dup: "length (filter (\<lambda>c. isDuplicate ps (fst c) (snd c)) ?cs) \<le> 4 * length ps" .
  have "length ?cs = length (filter (\<lambda>c. isDuplicate ps (fst c) (snd c)) ?cs) +
                     length (filter (\<lambda>c. \<not> isDuplicate ps (fst c) (snd c)) ?cs)"
    by (rule sum_length_filter_compl [symmetric])
  then show ?thesis using dup by (simp add: eq)
qed


lemma count2_upper: "nonRandomCount w h f 2 \<le> 30"
proof -
  have "length (foldl (pushIfNew f) (basePositions w h f) (gridPoints w h 4)) \<le>
        length (basePositions w h f) + length (gridPoints w h 4)"
    by (rule length_foldl_pushIfNew_le)
  then show ?thesis
    by (simp add: nonRandomCount_def nonRandomPositions_def diagonalLayer_def gridLayer_def
        length_gridPoints basePositions_def)
qed

lemma count3_upper: "nonRandomCount w h f 3 \<le> 54"
proof -
  have "length (foldl (pushIfNew f) (basePositions w h f) (gridPoints w h 6)) \<le>
        length (basePositions w h f) + length (gridPoints w h 6)"
    by (rule length_foldl_pushIfNew_le)
  then show ?thesis
    by (simp add: nonRandomCount_def nonRandomPositions_def diagonalLayer_def gridLayer_def
        length_gridPoints basePositions_def)
qed

lemma count3_lower:
  assumes "300 \<le> w" and "300 \<le> h"
  shows "34 \<le> nonRandomCount w h f 3"
proof -
  have "length (basePositions w h f) + length (gridPoints w h 6) \<le>
        length (foldl (pushIfNew f) (basePositions w h f) (gridPoints w h 6)) +
        4 * length (basePositions w h f)"
    using assms by (intro grid_lower) simp_all
  then show ?thesis
    by (simp add: nonRandomCount_def nonRandomPositions_def diagonalLayer_def gridLayer_def
        length_gridPoints basePositions_def)
qed

lemma count4_lower:
  assumes "400 \<le> w" and "400 \<le> h"
  shows "66 \<le> nonRandomCount w h f 4"
proof -
  let ?grid = "foldl (pushIfNew f) (basePositions w h f) (gridPoints w h 8)"
  have "length (basePositions w h f) + length (gridPoints w h 8) \<le>
        length ?grid + 4 * length (basePositions w h f)"
    using assms by (intro grid_lower) simp_all
  then have "66 \<le> length ?grid"
    by (simp add: length_gridPoints basePositions_def)
  also have "\<dots> \<le> length (foldl (pushIfNew f) ?grid (diagonal1 w h 8))"
    by (rule length_foldl_pushIfNew_ge)
  also have "\<dots> \<le> length (foldl (pushIfNew f) (foldl (pushIfNew f) ?grid (diagonal1 w h 8))
                         (diagonal2 w h 8))"
    by (rule length_foldl_pushIfNew_ge)
  finally show ?thesis
    by (simp add: nonRandomCount_def nonRandomPositions_def diagonalLayer_def gridLayer_def)
qed

text \<open>
  C3, as the code has it. The exclusion radius is 50 units whatever the size of the page,
  so on a small page a finer grid keeps fewer of its points. The count of non-random
  positions at density 2 is at most the count at density 3 when width and height are at
  least 300, and the count at density 3 is less than the count at density 4 when width and
  height are at least 400; the font size plays no part.
\<close>

theorem density_monotone_on_large_pages:
  "(300 \<le> width \<and> 300 \<le> height \<longrightarrow>
      nonRandomCount width height fontSize 2 \<le> nonRandomCount width height fontSize 3) \<and>
   (400 \<le> width \<and> 400 \<le> height \<longrightarrow>
      nonRandomCount width height fontSize 3 < nonRandomCount width height fontSize 4)"
proof (intro conjI impI)
  assume "300 \<le> width \<and> 300 \<le> height"
  then have "34 \<le> nonRandomCount width height fontSize 3" by (simp add: count3_lower)
  with count2_upper [of width height fontSize]
  show "nonRandomCount width height fontSize 2 \<le> nonRandomCount width height fontSize 3"
    by linarith
next
  assume "400 \<le> width \<and> 400 \<le> height"
  then have "66 \<le> nonRandomCount width height fontSize 4" by (simp add: count4_lower)
  with count3_upper [of width height fontSize]
  show "nonRandomCount width height fontSize 3 < nonRandomCount width height fontSize 4"
    by linarith
qed

text \<open>C3 as amended, on an A4 page: 29, 49 and 77 positions.\<close>

theorem density_monotone_on_large_pages_witness:
  "(300::real) \<le> 595 \<and> (300::real) \<le> 842 \<and> (400::real) \<le> 595 \<and> (400::real) \<le> 842 \<and>
   nonRandomCount 595 842 40 2 \<le> nonRandomCount 595 842 40 3 \<and>
   nonRandomCount 595 842 40 3 < nonRandomCount 595 842 40 4"
  using density_monotone_on_large_pages [of 595 842 40] by simp

lemma small_page_counts:
  "nonRandomCount 240 240 40 2 = 21 \<and> nonRandomCount 240 240 40 3 = 17"
  unfolding nonRandomCount_def by code_simp

text \<open>
  The two bounds cannot be lowered by a point: on a page 299 points wide density 3 gives
  fewer positions than density 2, and on a page 399 points wide density 4 gives no more
  than density 3.
\<close>

lemma bound_300_is_needed:
  "nonRandomCount 299 842 40 2 = 29 \<and> nonRandomCount 299 842 40 3 = 27"
  unfolding nonRandomCount_def by code_simp

lemma bound_400_is_needed:
  "nonRandomCount 399 842 40 3 = 45 \<and> nonRandomCount 399 842 40 4 = 45"
  unfolding nonRandomCount_def by code_simp

text \<open>
  C3 as stated fails on a page of 240 by 240 points: density 2 gives 21 non-random
  positions and density 3 only 17.
\<close>

theorem density_not_monotone_on_small_page:
  "(0::real) < 240 \<and> (0::real) < 40 \<and>
   \<not> (nonRandomCount 240 240 40 2 \<le> nonRandomCount 240 240 40 3 \<and>
      nonRandomCount 240 240 40 3 < nonRandomCount 240 240 40 4)"
  by (simp add: small_page_counts)

section \<open>Colours\<close>

lemmas js_eval = ascii_def isStrWhiteSpaceChar_def isRadixDigit_def digitValue_def
  digitsValue_def trimString_def isDecimalDigit_def scale10_def exponentPart_def
  strUnsignedDecimalLiteral_def strDecimalLiteral_def parseFloat_def
  nonDecimalIntegerLiteral_def Number_def parseInt_def

lemmas color_eval = parseColor_def Let_def rgb_def Math_min_def Math_max_def isNaN_def

lemma clamp_unit:
  "0 \<le> v \<Longrightarrow> v \<le> 1 \<Longrightarrow> Math_max (Fin 0) (Math_min (Fin 1) (Fin v)) = Fin v"
  by (simp add: Math_min_def Math_max_def)

lemma clamp_cases:
  "Math_max (Fin 0) (Math_min (Fin 1) v) = NaN \<and> v = NaN \<or>
   inUnitInterval (Math_max (Fin 0) (Math_min (Fin 1) v))"
  by (cases v) (auto simp: Math_min_def Math_max_def inUnitInterval_def)

lemma clamp_idem:
  "Math_max (Fin 0) (Math_min (Fin 1) (Math_max (Fin 0) (Math_min (Fin 1) v))) =
   Math_max (Fin 0) (Math_min (Fin 1) v)"
  by (cases v) (auto simp: Math_min_def Math_max_def)

subsection \<open>The final clamp\<close>

text \<open>
  On the comma path the final clamp does what its comment says: every input that does not
  start with \<open>#\<close> gives three channels between 0 and 1, and the fractional example of
  the specification gives (1, 0, 0.5).
\<close>

lemma parseColor_rgb_path_in_range:
  assumes "take 1 colorStr \<noteq> ascii ''#''"
  shows "inUnitInterval (red (parseColor colorStr)) \<and>
         inUnitInterval (green (parseColor colorStr)) \<and>
         inUnitInterval (blue (parseColor colorStr))"
proof (cases "length (split colorStr 0x2C) \<ge> 3 \<and>
              \<not> list_ex isNaN (map Number (split colorStr 0x2C))")
  case False
  then have "parseColor colorStr = rgb (Fin 0) (Fin 0) (Fin 0)"
    using assms by (auto simp: parseColor_def Let_def clamp_unit)
  then show ?thesis by (simp add: rgb_def inUnitInterval_def)
next
  case True
  let ?vs = "map Number (split colorStr 0x2C)"
  have nn: "\<And>i. i < 3 \<Longrightarrow> ?vs ! i \<noteq> NaN"
  proof -
    fix i :: nat assume "i < 3"
    then have "?vs ! i \<in> set ?vs" using True by (intro nth_mem) simp
    then show "?vs ! i \<noteq> NaN" using True by (auto simp: list_ex_iff isNaN_def)
  qed
  have ch: "\<And>i. i < 3 \<Longrightarrow> inUnitInterval (Math_max (Fin 0) (Math_min (Fin 1) (?vs ! i)))"
    using nn clamp_cases by blast
  have "parseColor colorStr =
        rgb (Math_max (Fin 0) (Math_min (Fin 1) (?vs ! 0)))
            (Math_max (Fin 0) (Math_min (Fin 1) (?vs ! 1)))
            (Math_max (Fin 0) (Math_min (Fin 1) (?vs ! 2)))"
    using assms True by (simp add: parseColor_def Let_def clamp_idem)
  then show ?thesis using ch [of 0] ch [of 1] ch [of 2] by (simp add: rgb_def)
qed

lemma parseColor_fractional_example:
  "parseColor (ascii ''2,-1,0.5'') = rgb (Fin 1) (Fin 0) (Fin 0.5)"
  by (simp add: color_eval js_eval)

text \<open>
  C4. On the hexadecimal path the clamp does not do it. \<open>parseInt\<close> of two code units
  that are no hexadecimal digits is \<open>NaN\<close>, \<open>NaN / 255\<close> is \<open>NaN\<close>, and
  \<open>Math.max(0, Math.min(1, NaN))\<close> is \<open>NaN\<close>: for the input \<open>#zzzzzz\<close> the three
  channels handed to \<open>rgb\<close> are \<open>NaN\<close>, none of them in the interval from 0 to 1. The
  comma path tests its values with \<open>isNaN\<close>; the hexadecimal path has no such test.
\<close>

theorem parseColor_hex_nan:
  "parseColor (ascii ''#zzzzzz'') = rgb NaN NaN NaN \<and>
   \<not> inUnitInterval (red (parseColor (ascii ''#zzzzzz''))) \<and>
   \<not> inUnitInterval (green (parseColor (ascii ''#zzzzzz''))) \<and>
   \<not> inUnitInterval (blue (parseColor (ascii ''#zzzzzz'')))"
  by (simp add: color_eval js_eval inUnitInterval_def)

subsection \<open>Hexadecimal colours\<close>

lemma isHexDigit_cases:
  "isHexDigit c \<longleftrightarrow>
     (48 \<le> c \<and> c \<le> 57) \<or> (97 \<le> c \<and> c \<le> 102) \<or> (65 \<le> c \<and> c \<le> 70)"
  unfolding isHexDigit_def ascii_def by (simp, arith)

lemma hexDigitValue_eq:
  assumes "isHexDigit c"
  shows "digitValue c = Some (hexDigitValue c)" and "hexDigitValue c < 16"
  using assms unfolding isHexDigit_def hexDigitValue_def digitValue_def ascii_def
  by auto

lemma isHexDigit_radix: "isHexDigit c \<Longrightarrow> isRadixDigit 16 c"
  by (simp add: isRadixDigit_def hexDigitValue_eq)

lemma parseInt_hex_pair:
  assumes "isHexDigit a" and "isHexDigit b"
  shows "parseInt [a, b] 16 = Some (int (hexToInt [a, b]))"
proof -
  have ws: "\<not> isStrWhiteSpaceChar a"
    using assms(1) unfolding isHexDigit_cases isStrWhiteSpaceChar_def by auto
  have ne: "a \<noteq> 0x2D" "a \<noteq> 0x2B" "b \<noteq> 0x78" "b \<noteq> 0x58"
    using assms unfolding isHexDigit_cases by auto
  have pre: "take 2 [a, b] \<noteq> ascii ''0x''" "take 2 [a, b] \<noteq> ascii ''0X''"
    using ne by (simp_all add: ascii_def)
  have tw: "takeWhile (isRadixDigit 16) [a, b] = [a, b]"
    using assms by (simp add: isHexDigit_radix)
  have dw: "dropWhile isStrWhiteSpaceChar [a, b] = [a, b]"
    using ws by simp
  have val: "digitsValue 16 [a, b] = hexToInt [a, b]"
    using assms by (simp add: digitsValue_def hexToInt_def hexDigitValue_eq)
  show ?thesis
    unfolding parseInt_def Let_def dw using ne pre tw val by simp
qed

lemma hexToInt_le: "isHexDigit a \<Longrightarrow> isHexDigit b \<Longrightarrow> hexToInt [a, b] \<le> 255"
  using hexDigitValue_eq(2) [of a] hexDigitValue_eq(2) [of b] by (simp add: hexToInt_def)

lemma channel_hex_pair:
  assumes "isHexDigit a" and "isHexDigit b"
  shows "Math_max (Fin 0) (Math_min (Fin 1) (dividedBy (ofParsedInt (parseInt [a, b] 16)) 255)) =
         Fin (real (hexToInt [a, b]) / 255)"
  using hexToInt_le [OF assms] by (simp add: parseInt_hex_pair [OF assms] clamp_unit)

text \<open>
  C5. For six hexadecimal digits \<open>parseColor\<close> of \<open>#RRGGBB\<close> is the triple of
  \<open>hexToInt\<close> of each pair over 255; the shorthand \<open>#rgb\<close> gives what \<open>#rrggbb\<close>
  gives; \<open>#F00\<close> and \<open>#FF0000\<close> give (1, 0, 0) and \<open>#808080\<close> gives
  (128/255, 128/255, 128/255).
\<close>

theorem hex_colors:
  "(isHexDigit rh \<and> isHexDigit rl \<and> isHexDigit gh \<and> isHexDigit gl \<and>
    isHexDigit bh \<and> isHexDigit bl \<longrightarrow>
      parseColor (ascii ''#'' @ [rh, rl, gh, gl, bh, bl]) =
        rgb (Fin (real (hexToInt [rh, rl]) / 255))
            (Fin (real (hexToInt [gh, gl]) / 255))
            (Fin (real (hexToInt [bh, bl]) / 255)))
   \<and> parseColor (ascii ''#'' @ [r, g, b]) = parseColor (ascii ''#'' @ [r, r, g, g, b, b])
   \<and> parseColor (ascii ''#F00'') = rgb (Fin 1) (Fin 0) (Fin 0)
   \<and> parseColor (ascii ''#FF0000'') = rgb (Fin 1) (Fin 0) (Fin 0)
   \<and> parseColor (ascii ''#808080'') = rgb (Fin (128 / 255)) (Fin (128 / 255)) (Fin (128 / 255))"
proof (intro conjI impI)
  assume h: "isHexDigit rh \<and> isHexDigit rl \<and> isHexDigit gh \<and> isHexDigit gl \<and>
             isHexDigit bh \<and> isHexDigit bl"
  have "parseColor (ascii ''#'' @ [rh, rl, gh, gl, bh, bl]) =
        rgb (Math_max (Fin 0) (Math_min (Fin 1) (dividedBy (ofParsedInt (parseInt [rh, rl] 16)) 255)))
            (Math_max (Fin 0) (Math_min (Fin 1) (dividedBy (ofParsedInt (parseInt [gh, gl] 16)) 255)))
            (Math_max (Fin 0) (Math_min (Fin 1) (dividedBy (ofParsedInt (parseInt [bh, bl] 16)) 255)))"
    by (simp add: parseColor_def ascii_def)
  then show "parseColor (ascii ''#'' @ [rh, rl, gh, gl, bh, bl]) =
        rgb (Fin (real (hexToInt [rh, rl]) / 255))
            (Fin (real (hexToInt [gh, gl]) / 255))
            (Fin (real (hexToInt [bh, bl]) / 255))"
    using h by (simp add: channel_hex_pair)
next
  show "parseColor (ascii ''#'' @ [r, g, b]) = parseColor (ascii ''#'' @ [r, r, g, g, b, b])"
    by (simp add: parseColor_def ascii_def)
next
  show "parseColor (ascii ''#F00'') = rgb (Fin 1) (Fin 0) (Fin 0)"
    by (simp add: color_eval js_eval)
next
  show "parseColor (ascii ''#FF0000'') = rgb (Fin 1) (Fin 0) (Fin 0)"
    by (simp add: color_eval js_eval)
next
  show "parseColor (ascii ''#808080'') = rgb (Fin (128 / 255)) (Fin (128 / 255)) (Fin (128 / 255))"
    by (simp add: color_eval js_eval)
qed

text \<open>C5 on \<open>#3cF09a\<close>: the channels are 60/255, 240/255 and 154/255.\<close>

theorem hex_colors_witness:
  "isHexDigit 0x33 \<and> isHexDigit 0x63 \<and> isHexDigit 0x46 \<and> isHexDigit 0x30 \<and>
   isHexDigit 0x39 \<and> isHexDigit 0x61 \<and>
   parseColor (ascii ''#3cF09a'') = rgb (Fin (60 / 255)) (Fin (240 / 255)) (Fin (154 / 255))"
  using hex_colors [where rh = "0x33" and rl = "0x63" and gh = "0x46" and gl = "0x30"
      and bh = "0x39" and bl = "0x61"]
  by (simp add: isHexDigit_def hexToInt_def hexDigitValue_def ascii_def)

subsection \<open>The fallback to black\<close>

text \<open>
  C6. \<open>parseColor\<close> returns black, and throws nothing, for an input that starts with
  \<open>#\<close> and goes on with a number of code units other than 3 or 6, and for an input that
  does not start with \<open>#\<close> and splits at the commas into fewer than three tokens or
  holds a token that is not a number; \<open>not-a-color\<close>, \<open>#12\<close> and \<open>1,2\<close> give black.
  These are the only inputs that take the fallback: \<open>#\<close> with three code units gives
  the clamped \<open>parseInt\<close> of each code unit doubled over 255, \<open>#\<close> with six code units
  gives the clamped \<open>parseInt\<close> of each pair over 255, and any other input without
  \<open>#\<close> gives its first three values, clamped.
\<close>

theorem invalid_colors_black:
  "(take 1 colorStr = ascii ''#'' \<and> length (drop 1 colorStr) \<noteq> 3 \<and>
    length (drop 1 colorStr) \<noteq> 6 \<longrightarrow>
      parseColor colorStr = rgb (Fin 0) (Fin 0) (Fin 0))
   \<and> (take 1 colorStr \<noteq> ascii ''#'' \<and>
        (length (split colorStr 0x2C) < 3 \<or>
         (\<exists>t \<in> set (split colorStr 0x2C). isNaN (Number t))) \<longrightarrow>
      parseColor colorStr = rgb (Fin 0) (Fin 0) (Fin 0))
   \<and> (take 1 colorStr = ascii ''#'' \<and> length (drop 1 colorStr) = 3 \<longrightarrow>
      parseColor colorStr =
        rgb (Math_max (Fin 0) (Math_min (Fin 1)
               (dividedBy (ofParsedInt
                  (parseInt [drop 1 colorStr ! 0, drop 1 colorStr ! 0] 16)) 255)))
            (Math_max (Fin 0) (Math_min (Fin 1)
               (dividedBy (ofParsedInt
                  (parseInt [drop 1 colorStr ! 1, drop 1 colorStr ! 1] 16)) 255)))
            (Math_max (Fin 0) (Math_min (Fin 1)
               (dividedBy (ofParsedInt
                  (parseInt [drop 1 colorStr ! 2, drop 1 colorStr ! 2] 16)) 255))))
   \<and> (take 1 colorStr = ascii ''#'' \<and> length (drop 1 colorStr) = 6 \<longrightarrow>
      parseColor colorStr =
        rgb (Math_max (Fin 0) (Math_min (Fin 1)
               (dividedBy (ofParsedInt (parseInt (take 2 (drop 1 colorStr)) 16)) 255)))
            (Math_max (Fin 0) (Math_min (Fin 1)
               (dividedBy (ofParsedInt (parseInt (take 2 (drop 2 (drop 1 colorStr))) 16)) 255)))
            (Math_max (Fin 0) (Math_min (Fin 1)
               (dividedBy (ofParsedInt (parseInt (take 2 (drop 4 (drop 1 colorStr))) 16)) 255))))
   \<and> (take 1 colorStr \<noteq> ascii ''#'' \<and> 3 \<le> length (split colorStr 0x2C) \<and>
        \<not> (\<exists>t \<in> set (split colorStr 0x2C). isNaN (Number t)) \<longrightarrow>
      parseColor colorStr =
        rgb (Math_max (Fin 0) (Math_min (Fin 1) (Number (split colorStr 0x2C ! 0))))
            (Math_max (Fin 0) (Math_min (Fin 1) (Number (split colorStr 0x2C ! 1))))
            (Math_max (Fin 0) (Math_min (Fin 1) (Number (split colorStr 0x2C ! 2)))))
   \<and> parseColor (ascii ''not-a-color'') = rgb (Fin 0) (Fin 0) (Fin 0)
   \<and> parseColor (ascii ''#12'') = rgb (Fin 0) (Fin 0) (Fin 0)
   \<and> parseColor (ascii ''1,2'') = rgb (Fin 0) (Fin 0) (Fin 0)"
proof (intro conjI impI)
  assume "take 1 colorStr = ascii ''#'' \<and> length (drop 1 colorStr) \<noteq> 3 \<and>
          length (drop 1 colorStr) \<noteq> 6"
  then show "parseColor colorStr = rgb (Fin 0) (Fin 0) (Fin 0)"
    by (simp add: parseColor_def Let_def clamp_unit)
next
  assume "take 1 colorStr \<noteq> ascii ''#'' \<and>
        (length (split colorStr 0x2C) < 3 \<or>
         (\<exists>t \<in> set (split colorStr 0x2C). isNaN (Number t)))"
  then show "parseColor colorStr = rgb (Fin 0) (Fin 0) (Fin 0)"
    by (auto simp: parseColor_def Let_def clamp_unit list_ex_iff)
next
  assume h: "take 1 colorStr = ascii ''#'' \<and> length (drop 1 colorStr) = 3"
  then show "parseColor colorStr =
        rgb (Math_max (Fin 0) (Math_min (Fin 1)
               (dividedBy (ofParsedInt
                  (parseInt [drop 1 colorStr ! 0, drop 1 colorStr ! 0] 16)) 255)))
            (Math_max (Fin 0) (Math_min (Fin 1)
               (dividedBy (ofParsedInt
                  (parseInt [drop 1 colorStr ! 1, drop 1 colorStr ! 1] 16)) 255)))
            (Math_max (Fin 0) (Math_min (Fin 1)
               (dividedBy (ofParsedInt
                  (parseInt [drop 1 colorStr ! 2, drop 1 colorStr ! 2] 16)) 255)))"
    by (simp add: parseColor_def Let_def)
next
  assume h: "take 1 colorStr = ascii ''#'' \<and> length (drop 1 colorStr) = 6"
  then show "parseColor colorStr =
        rgb (Math_max (Fin 0) (Math_min (Fin 1)
               (dividedBy (ofParsedInt (parseInt (take 2 (drop 1 colorStr)) 16)) 255)))
            (Math_max (Fin 0) (Math_min (Fin 1)
               (dividedBy (ofParsedInt (parseInt (take 2 (drop 2 (drop 1 colorStr))) 16)) 255)))
            (Math_max (Fin 0) (Math_min (Fin 1)
               (dividedBy (ofParsedInt (parseInt (take 2 (drop 4 (drop 1 colorStr))) 16)) 255)))"
    by (simp add: parseColor_def Let_def)
next
  assume h: "take 1 colorStr \<noteq> ascii ''#'' \<and> 3 \<le> length (split colorStr 0x2C) \<and>
        \<not> (\<exists>t \<in> set (split colorStr 0x2C). isNaN (Number t))"
  then have len: "0 < length (split colorStr 0x2C)" by linarith
  from h len show "parseColor colorStr =
        rgb (Math_max (Fin 0) (Math_min (Fin 1) (Number (split colorStr 0x2C ! 0))))
            (Math_max (Fin 0) (Math_min (Fin 1) (Number (split colorStr 0x2C ! 1))))
            (Math_max (Fin 0) (Math_min (Fin 1) (Number (split colorStr 0x2C ! 2))))"
    by (simp add: parseColor_def Let_def clamp_idem list_ex_iff)
next
  show "parseColor (ascii ''not-a-color'') = rgb (Fin 0) (Fin 0) (Fin 0)"
    by (simp add: color_eval js_eval)
next
  show "parseColor (ascii ''#12'') = rgb (Fin 0) (Fin 0) (Fin 0)"
    by (simp add: color_eval js_eval)
next
  show "parseColor (ascii ''1,2'') = rgb (Fin 0) (Fin 0) (Fin 0)"
    by (simp add: color_eval js_eval)
qed

text \<open>
  C6 on \<open>#1234\<close> (four code units after \<open>#\<close>), on \<open>0.5,abc,1\<close> (a token that is not
  a number), and on three inputs that do not take the fallback: \<open>#F00\<close>, \<open>#00FF00\<close>
  and \<open>0.2,0.4,3\<close>.
\<close>

theorem invalid_colors_black_witness:
  "take 1 (ascii ''#1234'') = ascii ''#'' \<and>
   length (drop 1 (ascii ''#1234'')) \<noteq> 3 \<and> length (drop 1 (ascii ''#1234'')) \<noteq> 6 \<and>
   parseColor (ascii ''#1234'') = rgb (Fin 0) (Fin 0) (Fin 0) \<and>
   take 1 (ascii ''0.5,abc,1'') \<noteq> ascii ''#'' \<and>
   (\<exists>t \<in> set (split (ascii ''0.5,abc,1'') 0x2C). isNaN (Number t)) \<and>
   parseColor (ascii ''0.5,abc,1'') = rgb (Fin 0) (Fin 0) (Fin 0) \<and>
   take 1 (ascii ''#F00'') = ascii ''#'' \<and> length (drop 1 (ascii ''#F00'')) = 3 \<and>
   parseColor (ascii ''#F00'') = rgb (Fin 1) (Fin 0) (Fin 0) \<and>
   take 1 (ascii ''#00FF00'') = ascii ''#'' \<and> length (drop 1 (ascii ''#00FF00'')) = 6 \<and>
   parseColor (ascii ''#00FF00'') = rgb (Fin 0) (Fin 1) (Fin 0) \<and>
   take 1 (ascii ''0.2,0.4,3'') \<noteq> ascii ''#'' \<and>
   3 \<le> length (split (ascii ''0.2,0.4,3'') 0x2C) \<and>
   \<not> (\<exists>t \<in> set (split (ascii ''0.2,0.4,3'') 0x2C). isNaN (Number t)) \<and>
   parseColor (ascii ''0.2,0.4,3'') = rgb (Fin 0.2) (Fin 0.4) (Fin 1)"
proof -
  have a: "take 1 (ascii ''#1234'') = ascii ''#'' \<and>
           length (drop 1 (ascii ''#1234'')) \<noteq> 3 \<and> length (drop 1 (ascii ''#1234'')) \<noteq> 6"
    by (simp add: ascii_def)
  have b: "take 1 (ascii ''0.5,abc,1'') \<noteq> ascii ''#'' \<and>
           (\<exists>t \<in> set (split (ascii ''0.5,abc,1'') 0x2C). isNaN (Number t))"
    by (simp add: isNaN_def js_eval)
  have c: "take 1 (ascii ''0.2,0.4,3'') \<noteq> ascii ''#'' \<and>
           3 \<le> length (split (ascii ''0.2,0.4,3'') 0x2C) \<and>
           \<not> (\<exists>t \<in> set (split (ascii ''0.2,0.4,3'') 0x2C). isNaN (Number t))"
    by (simp add: isNaN_def js_eval)
  have d: "rgb (Math_max (Fin 0) (Math_min (Fin 1) (Number (split (ascii ''0.2,0.4,3'') 0x2C ! 0))))
               (Math_max (Fin 0) (Math_min (Fin 1) (Number (split (ascii ''0.2,0.4,3'') 0x2C ! 1))))
               (Math_max (Fin 0) (Math_min (Fin 1) (Number (split (ascii ''0.2,0.4,3'') 0x2C ! 2))))
           = rgb (Fin 0.2) (Fin 0.4) (Fin 1)"
    by (simp add: Math_min_def Math_max_def js_eval)
  have e: "take 1 (ascii ''#F00'') = ascii ''#'' \<and> length (drop 1 (ascii ''#F00'')) = 3"
    by (simp add: ascii_def)
  have f: "take 1 (ascii ''#00FF00'') = ascii ''#'' \<and> length (drop 1 (ascii ''#00FF00'')) = 6"
    by (simp add: ascii_def)
  have e': "parseColor (ascii ''#F00'') = rgb (Fin 1) (Fin 0) (Fin 0)"
  proof -
    from e invalid_colors_black [of "ascii ''#F00''"]
    have "parseColor (ascii ''#F00'') =
        rgb (Math_max (Fin 0) (Math_min (Fin 1)
               (dividedBy (ofParsedInt
                  (parseInt [drop 1 (ascii ''#F00'') ! 0, drop 1 (ascii ''#F00'') ! 0] 16)) 255)))
            (Math_max (Fin 0) (Math_min (Fin 1)
               (dividedBy (ofParsedInt
                  (parseInt [drop 1 (ascii ''#F00'') ! 1, drop 1 (ascii ''#F00'') ! 1] 16)) 255)))
            (Math_max (Fin 0) (Math_min (Fin 1)
               (dividedBy (ofParsedInt
                  (parseInt [drop 1 (ascii ''#F00'') ! 2, drop 1 (ascii ''#F00'') ! 2] 16)) 255)))"
      by blast
    also have "\<dots> = rgb (Fin 1) (Fin 0) (Fin 0)"
      by (simp add: Math_min_def Math_max_def js_eval)
    finally show ?thesis .
  qed
  have f': "parseColor (ascii ''#00FF00'') = rgb (Fin 0) (Fin 1) (Fin 0)"
  proof -
    from f invalid_colors_black [of "ascii ''#00FF00''"]
    have "parseColor (ascii ''#00FF00'') =
        rgb (Math_max (Fin 0) (Math_min (Fin 1)
               (dividedBy (ofParsedInt (parseInt (take 2 (drop 1 (ascii ''#00FF00''))) 16)) 255)))
            (Math_max (Fin 0) (Math_min (Fin 1)
               (dividedBy (ofParsedInt
                  (parseInt (take 2 (drop 2 (drop 1 (ascii ''#00FF00'')))) 16)) 255)))
            (Math_max (Fin 0) (Math_min (Fin 1)
               (dividedBy (ofParsedInt
                  (parseInt (take 2 (drop 4 (drop 1 (ascii ''#00FF00'')))) 16)) 255)))"
      by blast
    also have "\<dots> = rgb (Fin 0) (Fin 1) (Fin 0)"
      by (simp add: Math_min_def Math_max_def js_eval)
    finally show ?thesis .
  qed
  have ab: "parseColor (ascii ''#1234'') = rgb (Fin 0) (Fin 0) (Fin 0) \<and>
            parseColor (ascii ''0.5,abc,1'') = rgb (Fin 0) (Fin 0) (Fin 0)"
    using a b invalid_colors_black [of "ascii ''#1234''"]
      invalid_colors_black [of "ascii ''0.5,abc,1''"] by blast
  have c': "parseColor (ascii ''0.2,0.4,3'') = rgb (Fin 0.2) (Fin 0.4) (Fin 1)"
    using c d invalid_colors_black [of "ascii ''0.2,0.4,3''"] by (simp only:) blast
  from a b c e f ab c' e' f' show ?thesis by (simp only:) blast
qed

section \<open>Option normalization\<close>

lemmas options_eval = normalizedOptions_def orString_def orNumber_def orInt_def
  parseIntOfNumber_def draftOptions_def

text \<open>
  The example of the specification: a text that is no number, \<open>null\<close>, \<open>undefined\<close>
  and a letter give the four defaults.
\<close>

lemma normalizedOptions_defaults_example:
  "normalizedOptions
     \<lparr>raw_text = None, raw_color = None, raw_opacity = Str (ascii ''abc''),
      raw_fontSize = Null, raw_rotation = Undefined, raw_density = Str (ascii ''x'')\<rparr> =
   \<lparr>opt_text = [0x6C34, 0x5370, 0x6587, 0x672C], opt_color = ascii ''#000000'',
    opt_opacity = Fin 0.5, opt_fontSize = 50, opt_rotation = - 45, opt_density = 3\<rparr>"
  by (simp add: options_eval js_eval)

text \<open>
  An integer other than 0, below \<open>1e21\<close> in magnitude, passes \<open>parseInt(...) || d\<close>
  unchanged, whatever the domain of the option; a number other than 0 and \<open>NaN\<close> passes
  \<open>parseFloat(...) || d\<close> unchanged.
\<close>

lemma nonzero_integer_kept:
  assumes "k \<noteq> 0" and "\<bar>k\<bar> < 10 ^ 21"
  shows "orInt (parseIntOfNumber (Fin (of_int k))) d = k"
proof -
  have lo: "(1::real) / 10 ^ 6 \<le> \<bar>of_int k\<bar>"
  proof -
    have "(1::real) \<le> \<bar>of_int k\<bar>" using assms(1) by (simp flip: of_int_abs)
    moreover have "(1::real) / 10 ^ 6 \<le> 1" by simp
    ultimately show ?thesis by linarith
  qed
  have hi: "\<bar>of_int k :: real\<bar> < 10 ^ 21"
  proof -
    have "(of_int \<bar>k\<bar> :: real) < of_int (10 ^ 21)" using assms(2) by (simp only: of_int_less_iff)
    then show ?thesis by simp
  qed
  have fl: "\<lfloor>\<bar>of_int k :: real\<bar>\<rfloor> = \<bar>k\<bar>" by (simp flip: of_int_abs)
  show ?thesis
    using assms(1) lo hi fl by (auto simp: orInt_def parseIntOfNumber_def Let_def)
qed

lemma nonzero_number_kept:
  "v \<noteq> NaN \<Longrightarrow> v \<noteq> Fin 0 \<Longrightarrow> orNumber v d = v"
  by (simp add: orNumber_def)

text \<open>
  C7, as the code has it. Each numeric option takes its default (0.5, 50, -45, 3) when
  its input does not parse to a number, as for an absent input, \<open>null\<close> or a string
  that starts with no number; and a number other than 0 is kept as it is, whatever the
  domain of the option, for no range is tested: any number but 0 for the opacity, any
  integer but 0 below \<open>1e21\<close> in magnitude for the font size, the rotation and the
  density. The example of the specification (a string that is no number, \<open>null\<close>,
  \<open>undefined\<close> and a letter) gives the four defaults. Nothing is said here of the
  input 0.
\<close>

theorem normalization_defaults_and_kept_values:
  "(parseFloatOf (raw_opacity raw) = NaN \<longrightarrow> opt_opacity (normalizedOptions raw) = Fin 0.5)
   \<and> (parseIntOf (raw_fontSize raw) = None \<longrightarrow> opt_fontSize (normalizedOptions raw) = 50)
   \<and> (parseIntOf (raw_rotation raw) = None \<longrightarrow> opt_rotation (normalizedOptions raw) = - 45)
   \<and> (parseIntOf (raw_density raw) = None \<longrightarrow> opt_density (normalizedOptions raw) = 3)
   \<and> (raw_opacity raw = Num v \<and> v \<noteq> NaN \<and> v \<noteq> Fin 0 \<longrightarrow>
        opt_opacity (normalizedOptions raw) = v)
   \<and> (raw_fontSize raw = Num (Fin (of_int kf)) \<and> kf \<noteq> 0 \<and> \<bar>kf\<bar> < 10 ^ 21 \<longrightarrow>
        opt_fontSize (normalizedOptions raw) = kf)
   \<and> (raw_rotation raw = Num (Fin (of_int kr)) \<and> kr \<noteq> 0 \<and> \<bar>kr\<bar> < 10 ^ 21 \<longrightarrow>
        opt_rotation (normalizedOptions raw) = kr)
   \<and> (raw_density raw = Num (Fin (of_int kd)) \<and> kd \<noteq> 0 \<and> \<bar>kd\<bar> < 10 ^ 21 \<longrightarrow>
        opt_density (normalizedOptions raw) = kd)
   \<and> parseFloatOf Undefined = NaN \<and> parseFloatOf Null = NaN
   \<and> parseIntOf Undefined = None \<and> parseIntOf Null = None
   \<and> normalizedOptions
        \<lparr>raw_text = None, raw_color = None, raw_opacity = Str (ascii ''abc''),
         raw_fontSize = Null, raw_rotation = Undefined, raw_density = Str (ascii ''x'')\<rparr> =
      \<lparr>opt_text = [0x6C34, 0x5370, 0x6587, 0x672C], opt_color = ascii ''#000000'',
       opt_opacity = Fin 0.5, opt_fontSize = 50, opt_rotation = - 45, opt_density = 3\<rparr>"
proof (intro conjI impI)
  assume "raw_opacity raw = Num v \<and> v \<noteq> NaN \<and> v \<noteq> Fin 0"
  then show "opt_opacity (normalizedOptions raw) = v"
    by (simp add: normalizedOptions_def orNumber_def)
next
  assume "raw_fontSize raw = Num (Fin (of_int kf)) \<and> kf \<noteq> 0 \<and> \<bar>kf\<bar> < 10 ^ 21"
  then show "opt_fontSize (normalizedOptions raw) = kf"
    by (simp add: normalizedOptions_def nonzero_integer_kept)
next
  assume "raw_rotation raw = Num (Fin (of_int kr)) \<and> kr \<noteq> 0 \<and> \<bar>kr\<bar> < 10 ^ 21"
  then show "opt_rotation (normalizedOptions raw) = kr"
    by (simp add: normalizedOptions_def nonzero_integer_kept)
next
  assume "raw_density raw = Num (Fin (of_int kd)) \<and> kd \<noteq> 0 \<and> \<bar>kd\<bar> < 10 ^ 21"
  then show "opt_density (normalizedOptions raw) = kd"
    by (simp add: normalizedOptions_def nonzero_integer_kept)
next
  show "normalizedOptions
        \<lparr>raw_text = None, raw_color = None, raw_opacity = Str (ascii ''abc''),
         raw_fontSize = Null, raw_rotation = Undefined, raw_density = Str (ascii ''x'')\<rparr> =
      \<lparr>opt_text = [0x6C34, 0x5370, 0x6587, 0x672C], opt_color = ascii ''#000000'',
       opt_opacity = Fin 0.5, opt_fontSize = 50, opt_rotation = - 45, opt_density = 3\<rparr>"
    by (rule normalizedOptions_defaults_example)
qed (simp_all add: normalizedOptions_def orNumber_def orInt_def js_eval)

text \<open>
  C7 as amended, on the example of the specification (nothing parses) and on the options
  of the draft (opacity 0.5, size 40, 30 degrees, density 1).
\<close>

theorem normalization_defaults_and_kept_values_witness:
  "parseFloatOf (raw_opacity unparsableOptions) = NaN \<and>
   parseIntOf (raw_fontSize unparsableOptions) = None \<and>
   parseIntOf (raw_rotation unparsableOptions) = None \<and>
   parseIntOf (raw_density unparsableOptions) = None \<and>
   opt_opacity (normalizedOptions unparsableOptions) = Fin 0.5 \<and>
   opt_fontSize (normalizedOptions unparsableOptions) = 50 \<and>
   opt_rotation (normalizedOptions unparsableOptions) = - 45 \<and>
   opt_density (normalizedOptions unparsableOptions) = 3 \<and>
   raw_opacity draftOptions = Num (Fin 0.5) \<and> Fin 0.5 \<noteq> NaN \<and> Fin 0.5 \<noteq> Fin 0 \<and>
   raw_fontSize draftOptions = Num (Fin (of_int 40)) \<and> (40::int) \<noteq> 0 \<and> \<bar>40::int\<bar> < 10 ^ 21 \<and>
   raw_rotation draftOptions = Num (Fin (of_int 30)) \<and> (30::int) \<noteq> 0 \<and> \<bar>30::int\<bar> < 10 ^ 21 \<and>
   raw_density draftOptions = Num (Fin (of_int 1)) \<and> (1::int) \<noteq> 0 \<and> \<bar>1::int\<bar> < 10 ^ 21 \<and>
   opt_opacity (normalizedOptions draftOptions) = Fin 0.5 \<and>
   opt_fontSize (normalizedOptions draftOptions) = 40 \<and>
   opt_rotation (normalizedOptions draftOptions) = 30 \<and>
   opt_density (normalizedOptions draftOptions) = 1"
proof -
  have a: "parseFloatOf (raw_opacity unparsableOptions) = NaN \<and>
           parseIntOf (raw_fontSize unparsableOptions) = None \<and>
           parseIntOf (raw_rotation unparsableOptions) = None \<and>
           parseIntOf (raw_density unparsableOptions) = None"
    by (simp add: unparsableOptions_def js_eval)
  have b: "raw_opacity draftOptions = Num (Fin 0.5) \<and> Fin 0.5 \<noteq> NaN \<and> Fin 0.5 \<noteq> Fin 0"
    by (simp add: draftOptions_def)
  have c: "raw_fontSize draftOptions = Num (Fin (of_int 40)) \<and> (40::int) \<noteq> 0 \<and> \<bar>40::int\<bar> < 10 ^ 21"
    by (simp add: draftOptions_def)
  have d: "raw_rotation draftOptions = Num (Fin (of_int 30)) \<and> (30::int) \<noteq> 0 \<and> \<bar>30::int\<bar> < 10 ^ 21"
    by (simp add: draftOptions_def)
  have e: "raw_density draftOptions = Num (Fin (of_int 1)) \<and> (1::int) \<noteq> 0 \<and> \<bar>1::int\<bar> < 10 ^ 21"
    by (simp add: draftOptions_def)
  note t1 = normalization_defaults_and_kept_values [of unparsableOptions]
  note t2 = normalization_defaults_and_kept_values [of draftOptions "Fin 0.5" 40 30 1]
  from a t1 have u: "opt_opacity (normalizedOptions unparsableOptions) = Fin 0.5 \<and>
                     opt_fontSize (normalizedOptions unparsableOptions) = 50 \<and>
                     opt_rotation (normalizedOptions unparsableOptions) = - 45 \<and>
                     opt_density (normalizedOptions unparsableOptions) = 3"
    by blast
  from b c d e t2 have k: "opt_opacity (normalizedOptions draftOptions) = Fin 0.5 \<and>
                           opt_fontSize (normalizedOptions draftOptions) = 40 \<and>
                           opt_rotation (normalizedOptions draftOptions) = 30 \<and>
                           opt_density (normalizedOptions draftOptions) = 1"
    by (simp only:) blast
  from a u b c d e k show ?thesis by (simp only:) blast
qed

text \<open>
  C7 as stated fails where it promises the default for an input outside the domain: a
  density of 9 and an opacity of 7 are kept.
\<close>

theorem out_of_range_options_kept:
  "opt_density (normalizedOptions (draftOptions\<lparr>raw_density := Num (Fin 9)\<rparr>)) = 9 \<and>
   opt_density (normalizedOptions (draftOptions\<lparr>raw_density := Num (Fin 9)\<rparr>)) \<noteq> 3 \<and>
   opt_opacity (normalizedOptions (draftOptions\<lparr>raw_opacity := Num (Fin 7)\<rparr>)) = Fin 7 \<and>
   opt_opacity (normalizedOptions (draftOptions\<lparr>raw_opacity := Num (Fin 7)\<rparr>)) \<noteq> Fin 0.5"
  by (simp add: options_eval)

text \<open>
  The input 0. \<open>parseInt(x) || d\<close> and \<open>parseFloat(x) || d\<close> take the default also
  when the parsed number is 0: a rotation of 0 degrees, which the rotation slider of the
  form reaches, becomes -45, and an opacity of 0 becomes 0.5. The other options of the
  input are kept.
\<close>

lemma zero_options_replaced:
  "normalizedOptions (draftOptions\<lparr>raw_rotation := Num (Fin 0)\<rparr>) =
     \<lparr>opt_text = ascii ''DRAFT'', opt_color = ascii ''#FF0000'', opt_opacity = Fin 0.5,
      opt_fontSize = 40, opt_rotation = - 45, opt_density = 1\<rparr>
   \<and> opt_opacity (normalizedOptions (draftOptions\<lparr>raw_opacity := Num (Fin 0)\<rparr>)) = Fin 0.5"
  by (simp add: options_eval ascii_def)

section \<open>The orchestrator\<close>

subsection \<open>The page loop\<close>

lemma watermarkPages_trace:
  "\<exists>ds. snd (watermarkPages env opts f ucf col i pages trace calls) = trace @ ds \<and>
        list_all isDrawText ds"
proof (induction pages arbitrary: i trace calls)
  case Nil
  show ?case by simp
next
  case (Cons wh pages)
  let ?positions = "generateWatermarkPositions (\<lambda>k. random env (calls + k)) (fst wh) (snd wh)
                        (of_int (opt_fontSize opts)) (opt_density opts)"
  let ?calls = "if opt_density opts = 5 then calls + 45 else calls"
  let ?stamps = "map (pageStamp i (opt_text opts) f (opt_opacity opts) col (opt_rotation opts))
                   ?positions"
  have st: "list_all isDrawText ?stamps"
    by (simp add: pageStamp_def list_all_iff)
  show ?case
  proof (cases ucf)
    case True
    obtain ds where "snd (watermarkPages env opts f ucf col (Suc i) pages (trace @ ?stamps) ?calls)
                      = (trace @ ?stamps) @ ds" and "list_all isDrawText ds"
      using Cons [of "Suc i" "trace @ ?stamps" ?calls] by blast
    then show ?thesis using True st
      by (intro exI [of _ "?stamps @ ds"]) (simp add: Let_def)
  next
    case False
    show ?thesis
    proof (cases "embedFont env HelveticaBold")
      case (Inl e)
      then show ?thesis using False st
        by (intro exI [of _ ?stamps]) (simp add: Let_def)
    next
      case (Inr tf)
      let ?t = "testDraw i (fst wh) (snd wh) tf"
      obtain ds where "snd (watermarkPages env opts f ucf col (Suc i) pages
                         (trace @ ?stamps @ [?t]) ?calls) = (trace @ ?stamps @ [?t]) @ ds"
        and "list_all isDrawText ds"
        using Cons [of "Suc i" "trace @ ?stamps @ [?t]" ?calls] by blast
      then show ?thesis using False Inr st
        by (intro exI [of _ "?stamps @ [?t] @ ds"]) (simp add: Let_def testDraw_def)
    qed
  qed
qed

lemma watermarkPages_draws_only:
  "list_all isDrawText (snd (watermarkPages env opts f ucf col i pages [] calls))"
  using watermarkPages_trace [of env opts f ucf col i pages "[]" calls] by auto

text \<open>The loop stops only when embedding the font of the diagnostic stamp throws.\<close>

lemma watermarkPages_thrown:
  "fst (watermarkPages env opts f ucf col i pages trace calls) = Some e \<Longrightarrow>
   embedFont env HelveticaBold = Inl e"
proof (induction pages arbitrary: i trace calls)
  case Nil
  then show ?case by simp
next
  case (Cons wh pages)
  show ?case
  proof (cases ucf)
    case True
    then show ?thesis using Cons.prems Cons.IH by (simp add: Let_def)
  next
    case False
    show ?thesis
    proof (cases "embedFont env HelveticaBold")
      case (Inl e')
      then show ?thesis using Cons.prems False by (simp add: Let_def)
    next
      case (Inr tf)
      then show ?thesis using Cons.prems Cons.IH False by (simp add: Let_def)
    qed
  qed
qed

lemma loadFont_thrown:
  "loadFont env wtext = Inl e \<Longrightarrow> embedFont env HelveticaBold = Inl e"
  by (auto simp: loadFont_def split: sum.splits)

subsection \<open>The ways a run can end\<close>

lemma addWatermarkToPDF_cases:
  "(\<exists>e. readFileAsArrayBuffer f = Inl e \<and> addWatermarkToPDF env f raw = (Inl e, []))
   \<or> (\<exists>fileData e. readFileAsArrayBuffer f = Inr fileData \<and> pdfLoad env fileData = Inl e \<and>
         addWatermarkToPDF env f raw = (Inl e, []))
   \<or> (\<exists>fileData pdfDoc e trace.
         readFileAsArrayBuffer f = Inr fileData \<and> pdfLoad env fileData = Inr pdfDoc \<and>
         embedFont env HelveticaBold = Inl e \<and> list_all isDrawText trace \<and>
         addWatermarkToPDF env f raw = (Inl e, trace))
   \<or> (\<exists>fileData pdfDoc e trace.
         readFileAsArrayBuffer f = Inr fileData \<and> pdfLoad env fileData = Inr pdfDoc \<and>
         list_all isDrawText trace \<and> pdfSave env pdfDoc trace = Inl e \<and>
         addWatermarkToPDF env f raw = (Inl e, trace))
   \<or> (\<exists>fileData pdfDoc trace modifiedPdfBytes.
         readFileAsArrayBuffer f = Inr fileData \<and> pdfLoad env fileData = Inr pdfDoc \<and>
         list_all isDrawText trace \<and> pdfSave env pdfDoc trace = Inr modifiedPdfBytes \<and>
         addWatermarkToPDF env f raw =
           (Inr (ReturnedBool True),
            trace @ [SaveAs modifiedPdfBytes (ascii ''application/pdf'')
                       (ascii ''watermarked_'' @ fileName f)]))"
proof (cases "readFileAsArrayBuffer f")
  case (Inl e)
  then show ?thesis by (simp add: addWatermarkToPDF_def)
next
  case rd: (Inr fileData)
  show ?thesis
  proof (cases "pdfLoad env fileData")
    case (Inl e)
    then show ?thesis using rd by (simp add: addWatermarkToPDF_def)
  next
    case ld: (Inr pdfDoc)
    show ?thesis
    proof (cases "loadFont env (opt_text (normalizedOptions raw))")
      case (Inl e)
      then have "embedFont env HelveticaBold = Inl e" by (rule loadFont_thrown)
      moreover have "addWatermarkToPDF env f raw = (Inl e, [])"
        using rd ld Inl by (simp add: addWatermarkToPDF_def)
      ultimately show ?thesis using rd ld by auto
    next
      case (Inr r)
      obtain fnt ucf wtext where r: "r = (fnt, ucf, wtext)" by (cases r)
      let ?wp = "watermarkPages env ((normalizedOptions raw)\<lparr>opt_text := wtext\<rparr>) fnt ucf
                   (parseColor (opt_color (normalizedOptions raw))) 0 (pageSizes pdfDoc) [] 0"
      have dr: "list_all isDrawText (snd ?wp)" by (rule watermarkPages_draws_only)
      obtain res trace where wp: "?wp = (res, trace)" by (cases ?wp)
      have tr: "list_all isDrawText trace" using dr wp by simp
      show ?thesis
      proof (cases res)
        case (Some e)
        then have "fst ?wp = Some e" using wp by simp
        then have "embedFont env HelveticaBold = Inl e" by (rule watermarkPages_thrown)
        moreover have "addWatermarkToPDF env f raw = (Inl e, trace)"
          using rd ld Inr r wp Some by (simp add: addWatermarkToPDF_def)
        ultimately show ?thesis using rd ld tr by auto
      next
        case None
        show ?thesis
        proof (cases "pdfSave env pdfDoc trace")
          case (Inl e)
          then have "addWatermarkToPDF env f raw = (Inl e, trace)"
            using rd ld Inr r wp None by (simp add: addWatermarkToPDF_def)
          then show ?thesis using rd ld tr Inl by auto
        next
          case sv: (Inr modifiedPdfBytes)
          then have "addWatermarkToPDF env f raw =
              (Inr (ReturnedBool True),
               trace @ [SaveAs modifiedPdfBytes (ascii ''application/pdf'')
                          (ascii ''watermarked_'' @ fileName f)])"
            using rd ld Inr r wp None by (simp add: addWatermarkToPDF_def)
          then show ?thesis using rd ld tr sv by auto
        qed
      qed
    qed
  qed
qed

lemma filter_draws: "list_all isDrawText trace \<Longrightarrow> filter isDrawText (trace @ [SaveAs b m n]) = trace"
  by (simp add: list_all_iff)

lemma filter_draws_only: "list_all isDrawText trace \<Longrightarrow> filter isDrawText trace = trace"
  by (simp add: list_all_iff)

subsection \<open>A run with the fallback font\<close>







lemmas run_eval = workingEnv_def failingFetchEnv_def failingFontsEnv_def failingLoadEnv_def failingSaveEnv_def
  draftFile_def unreadableFile_def samplePdf_def readFileAsArrayBuffer_def




subsection \<open>A run that ends well\<close>

text \<open>
  The scenario of the specification: two pages of 600 by 800 points, the text \<open>DRAFT\<close>,
  red, opacity 0.5, size 40, 30 degrees, density 1, with the font file present. Each page
  gets the five base stamps, then the bytes are saved as \<open>watermarked_draft.pdf\<close>, and
  the function returns \<open>true\<close>.
\<close>

lemma sample_run:
  "addWatermarkToPDF workingEnv draftFile draftOptions =
     (Inr (ReturnedBool True),
      map (pageStamp 0 (ascii ''DRAFT'') (PDFFont 0) (Fin 0.5) (rgb (Fin 1) (Fin 0) (Fin 0)) 30)
          (basePositions 600 800 40) @
      map (pageStamp 1 (ascii ''DRAFT'') (PDFFont 0) (Fin 0.5) (rgb (Fin 1) (Fin 0) (Fin 0)) 30)
          (basePositions 600 800 40) @
      [SaveAs [0x25, 0x50, 0x44, 0x46] (ascii ''application/pdf'')
         (ascii ''watermarked_draft.pdf'')])"
proof -
  have o: "normalizedOptions draftOptions =
     \<lparr>opt_text = ascii ''DRAFT'', opt_color = ascii ''#FF0000'',
      opt_opacity = Fin 0.5, opt_fontSize = 40, opt_rotation = 30, opt_density = 1\<rparr>"
    by (simp add: options_eval ascii_def)
  have col: "parseColor (ascii ''#FF0000'') = rgb (Fin 1) (Fin 0) (Fin 0)"
    by (simp add: color_eval js_eval)
  have lf: "loadFont workingEnv (ascii ''DRAFT'') = Inr (PDFFont 0, True, ascii ''DRAFT'')"
    by (simp add: loadFont_def loadChineseFont_def run_eval)
  have gen: "\<And>rnd. generateWatermarkPositions rnd 600 800 40 1 = basePositions 600 800 40"
    by (simp add: generateWatermarkPositions_def nonRandomPositions_def diagonalLayer_def
        gridLayer_def)
  have name: "ascii ''watermarked_'' @ fileName draftFile = ascii ''watermarked_draft.pdf''"
    by (simp add: draftFile_def ascii_def)
  have rd: "readFileAsArrayBuffer draftFile = Inr [0x25, 0x50, 0x44, 0x46, 0x2D]"
    by (simp add: run_eval)
  have ld: "\<And>b. pdfLoad workingEnv b = Inr (samplePdf b)" by (simp add: workingEnv_def)
  have ps: "\<And>b. pageSizes (samplePdf b) = [(600, 800), (600, 800)]" by (simp add: samplePdf_def)
  have sv: "\<And>d t. pdfSave workingEnv d t = Inr [0x25, 0x50, 0x44, 0x46]"
    by (simp add: workingEnv_def)
  show ?thesis
    unfolding addWatermarkToPDF_def o
    by (simp add: rd ld lf col ps gen sv name Let_def)
qed

text \<open>
  C9 as stated fails: the run above ends well and returns \<open>true\<close>, not the bytes
  \<open>%PDF\<close> that were serialised and handed to \<open>saveAs\<close>.
\<close>

theorem success_does_not_return_bytes:
  "fst (addWatermarkToPDF workingEnv draftFile draftOptions) = Inr (ReturnedBool True) \<and>
   fst (addWatermarkToPDF workingEnv draftFile draftOptions)
     \<noteq> Inr (ReturnedBytes [0x25, 0x50, 0x44, 0x46]) \<and>
   last (snd (addWatermarkToPDF workingEnv draftFile draftOptions)) =
     SaveAs [0x25, 0x50, 0x44, 0x46] (ascii ''application/pdf'') (ascii ''watermarked_draft.pdf'')"
  by (simp add: sample_run)

text \<open>
  C9, as the code has it. When \<open>addWatermarkToPDF\<close> ends well it returns \<open>true\<close>. The
  file was read, the document loaded, and the bytes that \<open>save\<close> returned for the
  document with all its stamps drawn are handed to \<open>saveAs\<close>, as the last event of the
  run and the only one that is no \<open>drawText\<close>, with the type \<open>application/pdf\<close> and the
  name \<open>watermarked_\<close> followed by the name of the file.
\<close>

theorem success_returns_true_and_downloads:
  assumes "fst (addWatermarkToPDF env f raw) = Inr v"
  shows "v = ReturnedBool True \<and>
         (\<exists>fileData pdfDoc trace modifiedPdfBytes.
            readFileAsArrayBuffer f = Inr fileData \<and> pdfLoad env fileData = Inr pdfDoc \<and>
            list_all isDrawText trace \<and> pdfSave env pdfDoc trace = Inr modifiedPdfBytes \<and>
            snd (addWatermarkToPDF env f raw) =
              trace @ [SaveAs modifiedPdfBytes (ascii ''application/pdf'')
                         (ascii ''watermarked_'' @ fileName f)])"
  using addWatermarkToPDF_cases [of f env raw] assms by fastforce

text \<open>C9 as amended, on the run above.\<close>

theorem success_returns_true_and_downloads_witness:
  "fst (addWatermarkToPDF workingEnv draftFile draftOptions) = Inr (ReturnedBool True) \<and>
   (\<exists>fileData pdfDoc trace modifiedPdfBytes.
      readFileAsArrayBuffer draftFile = Inr fileData \<and> pdfLoad workingEnv fileData = Inr pdfDoc \<and>
      list_all isDrawText trace \<and> pdfSave workingEnv pdfDoc trace = Inr modifiedPdfBytes \<and>
      snd (addWatermarkToPDF workingEnv draftFile draftOptions) =
        trace @ [SaveAs modifiedPdfBytes (ascii ''application/pdf'')
                   (ascii ''watermarked_'' @ fileName draftFile)])"
proof -
  have h: "fst (addWatermarkToPDF workingEnv draftFile draftOptions) = Inr (ReturnedBool True)"
    by (simp add: sample_run)
  from success_returns_true_and_downloads [OF h] h show ?thesis by blast
qed

subsection \<open>A run that fails\<close>

text \<open>
  C10. When reading the file fails, or loading the document fails, the run ends with
  that error and nothing has happened. When the serialisation of what was drawn fails,
  the run ends with an error: that of the serialisation, unless embedding the built-in
  font had thrown before. And a run that ends with an error has called \<open>drawText\<close> at
  most: \<open>saveAs\<close> is not among its events.
\<close>

theorem failure_emits_no_file:
  "(readFileAsArrayBuffer f = Inl e \<longrightarrow> addWatermarkToPDF env f raw = (Inl e, []))
   \<and> (readFileAsArrayBuffer f = Inr fileData \<and> pdfLoad env fileData = Inl e \<longrightarrow>
        addWatermarkToPDF env f raw = (Inl e, []))
   \<and> (readFileAsArrayBuffer f = Inr fileData \<and> pdfLoad env fileData = Inr pdfDoc \<and>
        pdfSave env pdfDoc (filter isDrawText (snd (addWatermarkToPDF env f raw))) = Inl e \<longrightarrow>
        (fst (addWatermarkToPDF env f raw) = Inl e \<or>
         (\<exists>e'. embedFont env HelveticaBold = Inl e' \<and> fst (addWatermarkToPDF env f raw) = Inl e')))
   \<and> (fst (addWatermarkToPDF env f raw) = Inl e \<longrightarrow>
        list_all isDrawText (snd (addWatermarkToPDF env f raw)))"
proof (intro conjI impI)
  assume "readFileAsArrayBuffer f = Inl e"
  then show "addWatermarkToPDF env f raw = (Inl e, [])" by (simp add: addWatermarkToPDF_def)
next
  assume "readFileAsArrayBuffer f = Inr fileData \<and> pdfLoad env fileData = Inl e"
  then show "addWatermarkToPDF env f raw = (Inl e, [])" by (simp add: addWatermarkToPDF_def)
next
  assume a: "readFileAsArrayBuffer f = Inr fileData \<and> pdfLoad env fileData = Inr pdfDoc \<and>
        pdfSave env pdfDoc (filter isDrawText (snd (addWatermarkToPDF env f raw))) = Inl e"
  show "fst (addWatermarkToPDF env f raw) = Inl e \<or>
         (\<exists>e'. embedFont env HelveticaBold = Inl e' \<and> fst (addWatermarkToPDF env f raw) = Inl e')"
    using addWatermarkToPDF_cases [of f env raw] a
    by (elim disjE exE conjE) (simp_all add: filter_draws filter_draws_only)
next
  assume "fst (addWatermarkToPDF env f raw) = Inl e"
  then show "list_all isDrawText (snd (addWatermarkToPDF env f raw))"
    using addWatermarkToPDF_cases [of f env raw] by fastforce
qed

lemma failing_save_run:
  "fst (addWatermarkToPDF failingSaveEnv draftFile draftOptions) = Inl (Thrown (ascii ''save failed''))"
proof -
  have o: "normalizedOptions draftOptions =
     \<lparr>opt_text = ascii ''DRAFT'', opt_color = ascii ''#FF0000'',
      opt_opacity = Fin 0.5, opt_fontSize = 40, opt_rotation = 30, opt_density = 1\<rparr>"
    by (simp add: options_eval ascii_def)
  have lf: "loadFont failingSaveEnv (ascii ''DRAFT'') = Inr (PDFFont 0, True, ascii ''DRAFT'')"
    by (simp add: loadFont_def loadChineseFont_def run_eval)
  have rd: "readFileAsArrayBuffer draftFile = Inr [0x25, 0x50, 0x44, 0x46, 0x2D]"
    by (simp add: run_eval)
  have ld: "\<And>b. pdfLoad failingSaveEnv b = Inr (samplePdf b)"
    by (simp add: failingSaveEnv_def workingEnv_def)
  have sv: "\<And>d t. pdfSave failingSaveEnv d t = Inl (Thrown (ascii ''save failed''))"
    by (simp add: failingSaveEnv_def)
  have wp: "\<And>opts col i pages. fst (watermarkPages failingSaveEnv opts (PDFFont 0) True col i pages [] 0) = None"
  proof -
    fix opts col i pages
    show "fst (watermarkPages failingSaveEnv opts (PDFFont 0) True col i pages [] 0) = None"
      using watermarkPages_thrown [of failingSaveEnv opts "PDFFont 0" True col i pages "[]" 0]
      by (cases "fst (watermarkPages failingSaveEnv opts (PDFFont 0) True col i pages [] 0)")
         (simp_all add: failingSaveEnv_def workingEnv_def)
  qed
  show ?thesis
    unfolding addWatermarkToPDF_def o
    using wp [of "\<lparr>opt_text = ascii ''DRAFT'', opt_color = ascii ''#FF0000'',
      opt_opacity = Fin 0.5, opt_fontSize = 40, opt_rotation = 30, opt_density = 1\<rparr>"
      "parseColor (ascii ''#FF0000'')" 0 "pageSizes (samplePdf [0x25, 0x50, 0x44, 0x46, 0x2D])"]
    by (auto simp add: rd ld lf sv Let_def split: prod.splits option.splits)
qed

text \<open>
  C10 on a file that cannot be read, on a document that does not load and on a document
  that does not serialise.
\<close>

theorem failure_emits_no_file_witness:
  "readFileAsArrayBuffer unreadableFile = Inl (Thrown (ascii ''NotReadableError'')) \<and>
   addWatermarkToPDF workingEnv unreadableFile draftOptions =
     (Inl (Thrown (ascii ''NotReadableError'')), []) \<and>
   readFileAsArrayBuffer draftFile = Inr [0x25, 0x50, 0x44, 0x46, 0x2D] \<and>
   pdfLoad failingLoadEnv [0x25, 0x50, 0x44, 0x46, 0x2D] = Inl (Thrown (ascii ''No PDF header found'')) \<and>
   addWatermarkToPDF failingLoadEnv draftFile draftOptions =
     (Inl (Thrown (ascii ''No PDF header found'')), []) \<and>
   fst (addWatermarkToPDF failingSaveEnv draftFile draftOptions) = Inl (Thrown (ascii ''save failed'')) \<and>
   list_all isDrawText (snd (addWatermarkToPDF failingSaveEnv draftFile draftOptions))"
proof -
  let ?d = "[0x25, 0x50, 0x44, 0x46, 0x2D] :: bytes"
  have h1: "readFileAsArrayBuffer unreadableFile = Inl (Thrown (ascii ''NotReadableError''))"
    by (simp add: run_eval)
  have h2: "readFileAsArrayBuffer draftFile = Inr ?d" by (simp add: run_eval)
  have h3: "pdfLoad failingLoadEnv ?d = Inl (Thrown (ascii ''No PDF header found''))"
    by (simp add: run_eval)
  have c1: "addWatermarkToPDF workingEnv unreadableFile draftOptions =
     (Inl (Thrown (ascii ''NotReadableError'')), [])"
    using failure_emits_no_file [of unreadableFile "Thrown (ascii ''NotReadableError'')" workingEnv]
      h1 by blast
  have c2: "addWatermarkToPDF failingLoadEnv draftFile draftOptions =
     (Inl (Thrown (ascii ''No PDF header found'')), [])"
    using failure_emits_no_file [of draftFile "Thrown (ascii ''No PDF header found'')" failingLoadEnv
        draftOptions ?d] h2 h3 by blast
  have c3: "list_all isDrawText (snd (addWatermarkToPDF failingSaveEnv draftFile draftOptions))"
    using failure_emits_no_file [of draftFile "Thrown (ascii ''save failed'')" failingSaveEnv
        draftOptions] failing_save_run by blast
  from h1 c1 h2 h3 c2 failing_save_run c3 show ?thesis by (intro conjI)
qed

end
